theory Spec2Isabelle
  imports Complex_Main
begin

section \<open>Python strings\<close>

text \<open>
  A Python \<open>str\<close> is modelled as the list of its code points. The type \<open>char\<close> has
  256 values, so the development covers the strings whose code points are below 256
  (ASCII and the Latin-1 supplement); the character tables below are Python's tables
  restricted to that range.
\<close>

definition code_point :: "char \<Rightarrow> nat" where
  "code_point c = of_char c"

text \<open>\<open>str.lower\<close>: the upper-case letters below 256 are A-Z, U+00C0-U+00D6 and
  U+00D8-U+00DE; each has its lower-case partner 32 code points later.\<close>

definition lower_char :: "char \<Rightarrow> char" where
  "lower_char c =
     (let n = code_point c
      in if (65 \<le> n \<and> n \<le> 90) \<or> (192 \<le> n \<and> n \<le> 214) \<or> (216 \<le> n \<and> n \<le> 222)
         then char_of (n + 32) else c)"

definition lower :: "string \<Rightarrow> string" where
  "lower s = map lower_char s"

text \<open>\<open>str.isspace\<close> per character: U+0009-U+000D, U+001C-U+0020, U+0085, U+00A0.\<close>

definition isspace_char :: "char \<Rightarrow> bool" where
  "isspace_char c =
     (let n = code_point c
      in (9 \<le> n \<and> n \<le> 13) \<or> (28 \<le> n \<and> n \<le> 32) \<or> n = 133 \<or> n = 160)"

text \<open>\<open>str.strip()\<close> without argument removes leading and trailing whitespace.\<close>

definition strip :: "string \<Rightarrow> string" where
  "strip s = rev (dropWhile isspace_char (rev (dropWhile isspace_char s)))"

definition startswith :: "string \<Rightarrow> string \<Rightarrow> bool" where
  "startswith s p = (take (length p) s = p)"

text \<open>\<open>sub in s\<close> on strings: \<open>sub\<close> occurs as a contiguous slice of \<open>s\<close>.\<close>

fun contains :: "string \<Rightarrow> string \<Rightarrow> bool" where
  "contains [] sub = (sub = [])"
| "contains (c # cs) sub = (startswith (c # cs) sub \<or> contains cs sub)"

text \<open>\<open>s.replace(old, new)\<close>: every non-overlapping occurrence of \<open>old\<close>, scanning from
  the left, is replaced. For an empty \<open>old\<close> Python inserts \<open>new\<close> before every
  character and at the end.\<close>

function replace_from :: "string \<Rightarrow> string \<Rightarrow> string \<Rightarrow> string" where
  "replace_from old new [] = []"
| "replace_from old new (c # cs) =
     (if old \<noteq> [] \<and> startswith (c # cs) old
      then new @ replace_from old new (drop (length old) (c # cs))
      else c # replace_from old new cs)"
  by pat_completeness auto
termination
  by (relation "measure (\<lambda>(old, new, s). length s)") auto

definition replace :: "string \<Rightarrow> string \<Rightarrow> string \<Rightarrow> string" where
  "replace s old new =
     (if old = [] then new @ concat (map (\<lambda>c. c # new) s) else replace_from old new s)"

text \<open>\<open>s.split(sep)\<close> for a one-character separator: consecutive separators give empty
  fields, and the empty string gives one empty field.\<close>

fun split :: "string \<Rightarrow> char \<Rightarrow> string list" where
  "split [] sep = [[]]"
| "split (c # cs) sep =
     (if c = sep then [] # split cs sep
      else (case split cs sep of w # ws \<Rightarrow> (c # w) # ws | [] \<Rightarrow> [[c]]))"

text \<open>\<open>sep.join(parts)\<close>.\<close>

fun join :: "string \<Rightarrow> string list \<Rightarrow> string" where
  "join sep [] = []"
| "join sep [x] = x"
| "join sep (x # y # ys) = x @ sep @ join sep (y # ys)"

text \<open>\<open>str.isnumeric\<close> and \<open>str.isdigit\<close>. Below 256 the characters with a numeric
  value are 0-9, the superscripts U+00B2, U+00B3, U+00B9 and the fractions U+00BC,
  U+00BD, U+00BE; the fractions are numeric but are not digits. Both methods are false
  on the empty string.\<close>

definition isnumeric_char :: "char \<Rightarrow> bool" where
  "isnumeric_char c =
     (let n = code_point c
      in (48 \<le> n \<and> n \<le> 57) \<or> n = 178 \<or> n = 179 \<or> n = 185 \<or> n = 188 \<or> n = 189 \<or> n = 190)"

definition isdigit_char :: "char \<Rightarrow> bool" where
  "isdigit_char c =
     (let n = code_point c in (48 \<le> n \<and> n \<le> 57) \<or> n = 178 \<or> n = 179 \<or> n = 185)"

definition isnumeric :: "string \<Rightarrow> bool" where
  "isnumeric s = (s \<noteq> [] \<and> list_all isnumeric_char s)"

definition isdigit :: "string \<Rightarrow> bool" where
  "isdigit s = (s \<noteq> [] \<and> list_all isdigit_char s)"

text \<open>\<open>str(n)\<close> for a non-negative integer, and for any integer.\<close>

definition digit_char :: "nat \<Rightarrow> char" where
  "digit_char n = ''0123456789'' ! n"

fun str_nat :: "nat \<Rightarrow> string" where
  "str_nat n = (if n < 10 then [digit_char n] else str_nat (n div 10) @ [digit_char (n mod 10)])"

declare str_nat.simps [simp del]

definition str_int :: "int \<Rightarrow> string" where
  "str_int i = (if i < 0 then CHR ''-'' # str_nat (nat (- i)) else str_nat (nat i))"

section \<open>Similarity ratio of the standard library\<close>

text \<open>
  \<open>command_parser\<close> calls \<open>difflib.SequenceMatcher(None, a, b).ratio()\<close> of the Python
  standard library. The model follows that class for the case in which it is used here:
  no junk predicate, and a second sequence shorter than 200 elements, so that the
  automatic junk heuristic is off and the index \<open>b2j\<close> holds every position of \<open>b\<close>.
  In that case the two loops that extend a block over junk leave the block as it is,
  and they are not part of the model.
\<close>

text \<open>\<open>b2j[x]\<close>: the positions of \<open>x\<close> in \<open>b\<close>, increasing.\<close>

definition b2j :: "'a list \<Rightarrow> 'a \<Rightarrow> nat list" where
  "b2j b x = filter (\<lambda>j. b ! j = x) [0..<length b]"

text \<open>The inner loop of \<open>find_longest_match\<close> for one position \<open>i\<close> of \<open>a\<close>: it runs
  over the positions \<open>j\<close> of \<open>a[i]\<close> in \<open>b\<close>, skips those before \<open>blo\<close>, stops at \<open>bhi\<close>,
  extends the run that ended at \<open>(i - 1, j - 1)\<close> and keeps the first longest run.\<close>

fun scan_js :: "nat list \<Rightarrow> nat \<Rightarrow> nat \<Rightarrow> nat \<Rightarrow> (nat \<rightharpoonup> nat) \<Rightarrow>
    (nat \<rightharpoonup> nat) \<times> nat \<times> nat \<times> nat \<Rightarrow> (nat \<rightharpoonup> nat) \<times> nat \<times> nat \<times> nat" where
  "scan_js [] i blo bhi j2len st = st"
| "scan_js (j # js) i blo bhi j2len (newj2len, besti, bestj, bestsize) =
     (if j < blo then scan_js js i blo bhi j2len (newj2len, besti, bestj, bestsize)
      else if j \<ge> bhi then (newj2len, besti, bestj, bestsize)
      else
        let k = (if j = 0 then 0 else (case j2len (j - 1) of None \<Rightarrow> 0 | Some v \<Rightarrow> v)) + 1;
            newj2len' = newj2len(j \<mapsto> k)
        in if k > bestsize
           then scan_js js i blo bhi j2len (newj2len', i + 1 - k, j + 1 - k, k)
           else scan_js js i blo bhi j2len (newj2len', besti, bestj, bestsize))"

text \<open>The outer loop over the positions \<open>i\<close> of \<open>a\<close> in \<open>range(alo, ahi)\<close>.\<close>

fun scan_is :: "'a list \<Rightarrow> 'a list \<Rightarrow> nat list \<Rightarrow> nat \<Rightarrow> nat \<Rightarrow>
    (nat \<rightharpoonup> nat) \<times> nat \<times> nat \<times> nat \<Rightarrow> nat \<times> nat \<times> nat" where
  "scan_is a b [] blo bhi (j2len, best) = best"
| "scan_is a b (i # is) blo bhi (j2len, best) =
     (case scan_js (b2j b (a ! i)) i blo bhi j2len (Map.empty, best) of
        (newj2len, best') \<Rightarrow> scan_is a b is blo bhi (newj2len, best'))"

definition find_longest_match ::
    "'a list \<Rightarrow> 'a list \<Rightarrow> nat \<Rightarrow> nat \<Rightarrow> nat \<Rightarrow> nat \<Rightarrow> nat \<times> nat \<times> nat" where
  "find_longest_match a b alo ahi blo bhi =
     scan_is a b [alo..<ahi] blo bhi (Map.empty, alo, blo, 0)"

text \<open>A block of positive size found in \<open>range(alo, ahi)\<close> starts before \<open>ahi\<close> and ends
  after \<open>alo\<close>.\<close>

lemma scan_js_bounds:
  "scan_js js i blo bhi j2len (n, bi, bj, bs) = (n', bi', bj', bs') \<Longrightarrow> alo \<le> i \<Longrightarrow> i < ahi \<Longrightarrow>
   (0 < bs \<longrightarrow> bi < ahi \<and> alo < bi + bs) \<Longrightarrow> (0 < bs' \<longrightarrow> bi' < ahi \<and> alo < bi' + bs')"
proof (induction js arbitrary: n bi bj bs)
  case Nil
  then show ?case by simp
next
  case (Cons j js)
  show ?case
  proof (cases "j < blo")
    case True
    with Cons.prems have "scan_js js i blo bhi j2len (n, bi, bj, bs) = (n', bi', bj', bs')" by simp
    from Cons.IH[OF this Cons.prems(2,3,4)] show ?thesis .
  next
    case nlo: False
    show ?thesis
    proof (cases "j \<ge> bhi")
      case True
      with nlo Cons.prems show ?thesis by simp
    next
      case False
      define k where "k = (if j = 0 then 0 else (case j2len (j - 1) of None \<Rightarrow> 0 | Some v \<Rightarrow> v)) + 1"
      have kpos: "0 < k" by (simp add: k_def)
      show ?thesis
      proof (cases "k > bs")
        case True
        with nlo False Cons.prems(1) have "scan_js js i blo bhi j2len (n(j \<mapsto> k), i + 1 - k, j + 1 - k, k) = (n', bi', bj', bs')"
          by (simp add: k_def Let_def)
        moreover have "0 < k \<longrightarrow> i + 1 - k < ahi \<and> alo < i + 1 - k + k" using Cons.prems(2,3) kpos by auto
        ultimately show ?thesis using Cons.IH Cons.prems(2,3) by blast
      next
        case nb: False
        with nlo False Cons.prems(1) have "scan_js js i blo bhi j2len (n(j \<mapsto> k), bi, bj, bs) = (n', bi', bj', bs')"
          by (simp add: k_def Let_def)
        from Cons.IH[OF this Cons.prems(2,3,4)] show ?thesis .
      qed
    qed
  qed
qed

lemma scan_is_bounds:
  "scan_is a b is blo bhi (j2len, bi, bj, bs) = (bi', bj', bs') \<Longrightarrow> \<forall>i\<in>set is. alo \<le> i \<and> i < ahi \<Longrightarrow>
   (0 < bs \<longrightarrow> bi < ahi \<and> alo < bi + bs) \<Longrightarrow> (0 < bs' \<longrightarrow> bi' < ahi \<and> alo < bi' + bs')"
proof (induction "is" arbitrary: j2len bi bj bs)
  case Nil
  then show ?case by simp
next
  case (Cons i "is")
  obtain n1 bi1 bj1 bs1 where s: "scan_js (b2j b (a ! i)) i blo bhi j2len (Map.empty, bi, bj, bs) = (n1, bi1, bj1, bs1)"
    by (metis prod_cases4)
  from Cons.prems(2) have i: "alo \<le> i" "i < ahi" by auto
  from scan_js_bounds[OF s i Cons.prems(3)] have inv1: "0 < bs1 \<longrightarrow> bi1 < ahi \<and> alo < bi1 + bs1" .
  from Cons.prems(1) s have "scan_is a b is blo bhi (n1, bi1, bj1, bs1) = (bi', bj', bs')" by simp
  from Cons.IH[OF this _ inv1] Cons.prems(2) show ?case by simp
qed

lemma find_longest_match_bounds:
  "find_longest_match a b alo ahi blo bhi = (i, j, k) \<Longrightarrow> 0 < k \<Longrightarrow> i < ahi \<and> alo < i + k"
  unfolding find_longest_match_def
  using scan_is_bounds[of a b "[alo..<ahi]" blo bhi Map.empty alo blo 0 i j k alo ahi] by simp

text \<open>\<open>get_matching_blocks\<close> takes index ranges from a work list, finds the longest block of
  each range and, when it is not empty, adds the range to its left and the range to its
  right. The blocks are sorted at the end; the recursion below produces them in that
  order. Its termination needs the two bounds on \<open>find_longest_match\<close> proved above.\<close>

function matching_blocks ::
    "'a list \<Rightarrow> 'a list \<Rightarrow> nat \<Rightarrow> nat \<Rightarrow> nat \<Rightarrow> nat \<Rightarrow> (nat \<times> nat \<times> nat) list" where
  "matching_blocks a b alo ahi blo bhi =
     (case find_longest_match a b alo ahi blo bhi of
        (i, j, k) \<Rightarrow>
          if k = 0 then []
          else (if alo < i \<and> blo < j then matching_blocks a b alo i blo j else [])
               @ [(i, j, k)]
               @ (if i + k < ahi \<and> j + k < bhi then matching_blocks a b (i + k) ahi (j + k) bhi
                  else []))"
  by pat_completeness auto
termination
  apply (relation "measure (\<lambda>(a, b, alo, ahi, blo, bhi). ahi - alo)")
    apply simp
   apply (auto dest: find_longest_match_bounds [OF sym])
  done

text \<open>\<open>ratio()\<close> is \<open>2.0 * matches / (len(a) + len(b))\<close>, and \<open>1.0\<close> when both are empty.
  The quotient is kept as a rational number: Python rounds it to a double, which keeps
  the order of two such quotients and keeps them distinct while the lengths are below
  \<open>2^26\<close>, so that the comparisons of \<open>command_parser\<close> are the same.\<close>

definition ratio :: "'a list \<Rightarrow> 'a list \<Rightarrow> rat" where
  "ratio a b =
     (let matches = sum_list (map (\<lambda>(i, j, k). k) (matching_blocks a b 0 (length a) 0 (length b)));
          len = length a + length b
      in if len \<noteq> 0 then 2 * of_nat matches / of_nat len else 1)"

section \<open>Errors and the error decorator\<close>

text \<open>The exceptions that the program raises: the four that \<open>error_handler\<close> names, and
  \<open>EOFError\<close>, which \<open>input\<close> raises at the end of the standard input. A \<open>ValueError\<close>
  carries its \<open>args\<close> tuple: \<open>raise ValueError\<close> without a message has none.\<close>

datatype py_error = IndexError | ValueError "string list" | KeyError | TypeError | EOFError

section \<open>Fields\<close>

text \<open>A field object holds one value; \<open>str\<close> of a \<open>Name\<close> or a \<open>Phone\<close> is that value. A
  field is modelled as the value it holds, and its class as the function that builds it
  or raises. \<open>Name\<close> accepts every string.\<close>

type_synonym name = string
type_synonym phone = string

definition Name :: "string \<Rightarrow> name" where
  "Name v = v"

definition Phone :: "string \<Rightarrow> py_error + phone" where
  "Phone v =
     (if length v \<noteq> 12 then Inl (ValueError [''Phone must contains 12 symbols.''])
      else if \<not> startswith v ''380''
        then Inl (ValueError [''Phone must starts from '' @ [CHR 0x27] @ ''380'' @ [CHR 0x27] @ ''.''])
      else if \<not> isnumeric v then Inl (ValueError [''Phone number must include digits only.''])
      else Inr v)"

subsection \<open>Dates of the standard library\<close>

text \<open>\<open>datetime.date\<close>: a year from 1 to 9999, a month and a day of the proleptic
  Gregorian calendar.\<close>

record date =
  year :: nat
  month :: nat
  day :: nat

definition is_leap :: "nat \<Rightarrow> bool" where
  "is_leap y = (y mod 4 = 0 \<and> (y mod 100 \<noteq> 0 \<or> y mod 400 = 0))"

definition days_in_month :: "nat \<Rightarrow> nat \<Rightarrow> nat" where
  "days_in_month y m =
     (if m = 2 then (if is_leap y then 29 else 28)
      else if m = 4 \<or> m = 6 \<or> m = 9 \<or> m = 11 then 30 else 31)"

definition check_date :: "nat \<Rightarrow> nat \<Rightarrow> nat \<Rightarrow> bool" where
  "check_date y m d =
     (1 \<le> y \<and> y \<le> 9999 \<and> 1 \<le> m \<and> m \<le> 12 \<and> 1 \<le> d \<and> d \<le> days_in_month y m)"

definition days_before_year :: "nat \<Rightarrow> nat" where
  "days_before_year y = (let p = y - 1 in p * 365 + p div 4 - p div 100 + p div 400)"

definition days_before_month :: "nat \<Rightarrow> nat \<Rightarrow> nat" where
  "days_before_month y m = sum_list (map (days_in_month y) [1..<m])"

definition toordinal :: "date \<Rightarrow> int" where
  "toordinal dt = int (days_before_year (year dt) + days_before_month (year dt) (month dt) + day dt)"

text \<open>\<open>a > b\<close> on dates.\<close>

definition date_gt :: "date \<Rightarrow> date \<Rightarrow> bool" where
  "date_gt a b =
     (year a > year b \<or> (year a = year b \<and> (month a > month b
        \<or> (month a = month b \<and> day a > day b))))"

text \<open>\<open>dt.replace(year=y)\<close> builds a new date and raises \<open>ValueError\<close> when there is no such
  date.\<close>

definition replace_year :: "date \<Rightarrow> nat \<Rightarrow> py_error + date" where
  "replace_year dt y =
     (if \<not> (1 \<le> y \<and> y \<le> 9999) then Inl (ValueError [''year '' @ str_nat y @ '' is out of range''])
      else if \<not> (1 \<le> day dt \<and> day dt \<le> days_in_month y (month dt))
        then Inl (ValueError [''day is out of range for month''])
      else Inr (dt\<lparr>year := y\<rparr>))"

subsection \<open>Parsing and printing a date\<close>

text \<open>
  \<open>datetime.strptime(value, "%d-%m-%Y")\<close> matches the text against the regular expression
  that the library builds from the format,
  \<^verbatim>\<open>(?P<d>3[0-1]|[1-2]\d|0[1-9]|[1-9]| [1-9])-(?P<m>1[0-2]|0[1-9]|[1-9])-(?P<Y>\d\d\d\d)\<close>,
  at the start of the text, and raises \<open>ValueError\<close> when there is no match, when text
  remains after the match, or when the three numbers are not a date. Each part of the
  expression gives the list of its matches in the order in which the alternatives are
  tried, so that the first element of the combined list is the match the library finds.
\<close>

definition in_range :: "char \<Rightarrow> char \<Rightarrow> char \<Rightarrow> bool" where
  "in_range lo hi c = (code_point lo \<le> code_point c \<and> code_point c \<le> code_point hi)"

definition digit_value :: "char \<Rightarrow> nat" where
  "digit_value c = code_point c - 48"

definition two_chars :: "(char \<Rightarrow> bool) \<Rightarrow> (char \<Rightarrow> bool) \<Rightarrow> string \<Rightarrow> (nat \<times> string) list" where
  "two_chars p q s =
     (case s of
        c1 # c2 # r \<Rightarrow> if p c1 \<and> q c2 then [(10 * digit_value c1 + digit_value c2, r)] else []
      | _ \<Rightarrow> [])"

definition one_char :: "(char \<Rightarrow> bool) \<Rightarrow> string \<Rightarrow> (nat \<times> string) list" where
  "one_char p s = (case s of c # r \<Rightarrow> if p c then [(digit_value c, r)] else [] | [] \<Rightarrow> [])"

definition space_char :: "(char \<Rightarrow> bool) \<Rightarrow> string \<Rightarrow> (nat \<times> string) list" where
  "space_char p s =
     (case s of
        c1 # c2 # r \<Rightarrow> if c1 = CHR '' '' \<and> p c2 then [(digit_value c2, r)] else []
      | _ \<Rightarrow> [])"

definition re_d :: "string \<Rightarrow> (nat \<times> string) list" where
  "re_d s =
     two_chars (\<lambda>c. c = CHR ''3'') (in_range CHR ''0'' CHR ''1'') s
     @ two_chars (in_range CHR ''1'' CHR ''2'') (in_range CHR ''0'' CHR ''9'') s
     @ two_chars (\<lambda>c. c = CHR ''0'') (in_range CHR ''1'' CHR ''9'') s
     @ one_char (in_range CHR ''1'' CHR ''9'') s
     @ space_char (in_range CHR ''1'' CHR ''9'') s"

definition re_m :: "string \<Rightarrow> (nat \<times> string) list" where
  "re_m s =
     two_chars (\<lambda>c. c = CHR ''1'') (in_range CHR ''0'' CHR ''2'') s
     @ two_chars (\<lambda>c. c = CHR ''0'') (in_range CHR ''1'' CHR ''9'') s
     @ one_char (in_range CHR ''1'' CHR ''9'') s"

definition re_Y :: "string \<Rightarrow> (nat \<times> string) list" where
  "re_Y s =
     (case s of
        c1 # c2 # c3 # c4 # r \<Rightarrow>
          if list_all (in_range CHR ''0'' CHR ''9'') [c1, c2, c3, c4]
          then [(1000 * digit_value c1 + 100 * digit_value c2 + 10 * digit_value c3
                  + digit_value c4, r)]
          else []
      | _ \<Rightarrow> [])"

definition re_lit :: "char \<Rightarrow> string \<Rightarrow> string list" where
  "re_lit x s = (case s of c # r \<Rightarrow> if c = x then [r] else [] | [] \<Rightarrow> [])"

definition re_d_dash :: "string \<Rightarrow> (nat \<times> string) list" where
  "re_d_dash s = [(d, r2). (d, r1) \<leftarrow> re_d s, r2 \<leftarrow> re_lit CHR ''-'' r1]"

definition re_m_dash :: "string \<Rightarrow> (nat \<times> string) list" where
  "re_m_dash s = [(m, r2). (m, r1) \<leftarrow> re_m s, r2 \<leftarrow> re_lit CHR ''-'' r1]"

definition strptime_matches :: "string \<Rightarrow> ((nat \<times> nat \<times> nat) \<times> string) list" where
  "strptime_matches s =
     [((y, m, d), r3). (d, r1) \<leftarrow> re_d_dash s, (m, r2) \<leftarrow> re_m_dash r1, (y, r3) \<leftarrow> re_Y r2]"

text \<open>\<open>None\<close> stands for the \<open>ValueError\<close> of the library; the only caller replaces it by
  its own.\<close>

definition strptime :: "string \<Rightarrow> date option" where
  "strptime s =
     (case strptime_matches s of
        [] \<Rightarrow> None
      | ((y, m, d), rest) # _ \<Rightarrow>
          if rest \<noteq> [] then None
          else if \<not> check_date y m d then None
          else Some \<lparr>year = y, month = m, day = d\<rparr>)"

text \<open>\<open>strftime("%d-%m-%Y")\<close> hands the format to the C library. Day and month are
  printed in two digits, filled with a zero. The year is printed by \<open>%Y\<close> as a plain
  decimal number: the GNU C library does not fill it with zeros, so the year 999 comes
  out as \<open>999\<close>. From the year 1000 on the output has four digits on every platform.\<close>

definition pad2 :: "nat \<Rightarrow> string" where
  "pad2 n = [digit_char (n div 10 mod 10), digit_char (n mod 10)]"

definition strftime :: "date \<Rightarrow> string" where
  "strftime dt = pad2 (day dt) @ ''-'' @ pad2 (month dt) @ ''-'' @ str_nat (year dt)"

subsection \<open>Birthday\<close>

text \<open>The setter reads the current date; it is the first argument here.\<close>

type_synonym birthday = date

definition Birthday :: "date \<Rightarrow> string \<Rightarrow> py_error + birthday" where
  "Birthday today v =
     (case strptime v of
        None \<Rightarrow> Inl (ValueError [''Birthday must be in a format '' @ [CHR 0x27] @ ''DD-MM-YYYY''
                                   @ [CHR 0x27]])
      | Some dt \<Rightarrow>
          if date_gt dt today then Inl (ValueError [''Birthday can'' @ [CHR 0x27]
                                                      @ ''t be bigger than current date.''])
          else Inr dt)"

definition Birthday_str :: "birthday \<Rightarrow> string" where
  "Birthday_str b = strftime b"

subsection \<open>\<open>repr\<close> and \<open>int\<close> of the standard library\<close>

text \<open>\<open>repr\<close> of a string: it is quoted with \<open>'\<close>, or with \<open>"\<close> when it holds a \<open>'\<close> and no
  \<open>"\<close>; the quote and the backslash are escaped, tab, newline and carriage return are
  written \<open>\t\<close>, \<open>\n\<close>, \<open>\r\<close>, and the other characters that are not printable (below 256:
  U+0000-U+001F, U+007F-U+00A0, U+00AD) as \<open>\xhh\<close>.\<close>

definition hex_digit :: "nat \<Rightarrow> char" where
  "hex_digit n = ''0123456789abcdef'' ! n"

definition isprintable_char :: "char \<Rightarrow> bool" where
  "isprintable_char c =
     (let n = code_point c in \<not> (n < 32 \<or> (127 \<le> n \<and> n \<le> 160) \<or> n = 173))"

definition repr_char :: "char \<Rightarrow> char \<Rightarrow> string" where
  "repr_char quote c =
     (if c = quote \<or> c = CHR 0x5C then [CHR 0x5C, c]
      else if c = CHR 0x09 then [CHR 0x5C, CHR ''t'']
      else if c = CHR 0x0A then [CHR 0x5C, CHR ''n'']
      else if c = CHR 0x0D then [CHR 0x5C, CHR ''r'']
      else if \<not> isprintable_char c
        then [CHR 0x5C, CHR ''x'', hex_digit (code_point c div 16), hex_digit (code_point c mod 16)]
      else [c])"

definition repr :: "string \<Rightarrow> string" where
  "repr s =
     (let quote = (if CHR 0x27 \<in> set s \<and> CHR 0x22 \<notin> set s then CHR 0x22 else CHR 0x27)
      in [quote] @ concat (map (repr_char quote) s) @ [quote])"

text \<open>\<open>int(s)\<close> for a string, in base 10. The string is first brought to ASCII: a
  character from U+007F on becomes a blank when it is white space and \<open>?\<close> otherwise
  (below 256 there is no decimal digit outside ASCII). Then the C parser skips the white
  space of C (tab to carriage return, and the blank), reads a sign, refuses a leading
  underscore, and scans digits and single underscores between them; two underscores in a
  row or an underscore at the end are refused, more than 4300 digits are refused with a
  message of their own, and after the digits only white space may follow. The message
  of an invalid literal shows at most 200 characters of the \<open>repr\<close> of the string.\<close>

definition to_ascii_char :: "char \<Rightarrow> char" where
  "to_ascii_char c =
     (if code_point c < 127 then c else if isspace_char c then CHR '' '' else CHR ''?'')"

definition c_isspace :: "char \<Rightarrow> bool" where
  "c_isspace c = (let n = code_point c in (9 \<le> n \<and> n \<le> 13) \<or> n = 32)"

definition invalid_literal :: "string \<Rightarrow> py_error" where
  "invalid_literal s =
     ValueError [''invalid literal for int() with base 10: '' @ take 200 (repr s)]"

definition exceeds_limit :: "nat \<Rightarrow> py_error" where
  "exceeds_limit digits =
     ValueError [''Exceeds the limit (4300 digits) for integer string conversion: value has ''
                 @ str_nat digits
                 @ '' digits; use sys.set_int_max_str_digits() to increase the limit'']"

text \<open>The scan over digits and underscores, with the previous character, the number of
  digits and the value read so far. \<open>None\<close> stands for two underscores in a row.\<close>

fun scan_digits :: "string \<Rightarrow> char \<Rightarrow> nat \<Rightarrow> int \<Rightarrow> (nat \<times> int \<times> char \<times> string) option" where
  "scan_digits [] prev digits v = Some (digits, v, prev, [])"
| "scan_digits (c # cs) prev digits v =
     (if c = CHR ''_'' then (if prev = CHR ''_'' then None else scan_digits cs c digits v)
      else if code_point CHR ''0'' \<le> code_point c \<and> code_point c \<le> code_point CHR ''9''
        then scan_digits cs c (digits + 1) (10 * v + int (code_point c - 48))
      else Some (digits, v, prev, c # cs))"

definition py_int :: "string \<Rightarrow> py_error + int" where
  "py_int s =
     (let str = dropWhile c_isspace (map to_ascii_char s);
          negative = (case str of c # r \<Rightarrow> c = CHR ''-'' | [] \<Rightarrow> False);
          str' = (case str of c # r \<Rightarrow> if c = CHR ''+'' \<or> c = CHR ''-'' then r else str | [] \<Rightarrow> str)
      in if (case str' of c # r \<Rightarrow> c = CHR ''_'' | [] \<Rightarrow> False) then Inl (invalid_literal s)
         else (case scan_digits str' (CHR 0x00) 0 0 of
                 None \<Rightarrow> Inl (invalid_literal s)
               | Some (digits, v, prev, rest) \<Rightarrow>
                   if prev = CHR ''_'' then Inl (invalid_literal s)
                   else if digits > 4300 then Inl (exceeds_limit digits)
                   else if digits = 0 then Inl (invalid_literal s)
                   else if dropWhile c_isspace rest \<noteq> [] then Inl (invalid_literal s)
                   else Inr (if negative then - v else v)))"

subsection \<open>Email\<close>

text \<open>The setter accepts the value when
  \<^verbatim>\<open>re.findall(r"\b[A-Za-z][\w+.]+@\w+[.][a-z]{2,3}", value)\<close> is not empty, that is, when
  the pattern matches somewhere in the value. \<open>\w\<close> is a letter, a digit or another
  character with a numeric value, or the underscore; \<open>\b\<close> before a letter holds at the
  start of the text and after a character that is not \<open>\w\<close>.\<close>

definition is_word_char :: "char \<Rightarrow> bool" where
  "is_word_char c =
     (let n = code_point c
      in (48 \<le> n \<and> n \<le> 57) \<or> (65 \<le> n \<and> n \<le> 90) \<or> n = 95 \<or> (97 \<le> n \<and> n \<le> 122)
         \<or> n = 170 \<or> n = 178 \<or> n = 179 \<or> n = 181 \<or> n = 185 \<or> n = 186
         \<or> (188 \<le> n \<and> n \<le> 190) \<or> (192 \<le> n \<and> n \<le> 214) \<or> (216 \<le> n \<and> n \<le> 246)
         \<or> (248 \<le> n \<and> n \<le> 255))"

definition is_ascii_letter :: "char \<Rightarrow> bool" where
  "is_ascii_letter c = (let n = code_point c in (65 \<le> n \<and> n \<le> 90) \<or> (97 \<le> n \<and> n \<le> 122))"

definition is_ascii_lower :: "char \<Rightarrow> bool" where
  "is_ascii_lower c = (let n = code_point c in 97 \<le> n \<and> n \<le> 122)"

text \<open>\<open>[a-z]{2,3}\<close> at the start of the text.\<close>

definition re_tld :: "string \<Rightarrow> bool" where
  "re_tld s = (case s of a # b # r \<Rightarrow> is_ascii_lower a \<and> is_ascii_lower b | _ \<Rightarrow> False)"

text \<open>\<open>\w+[.][a-z]{2,3}\<close> at the start of the text.\<close>

fun re_domain :: "string \<Rightarrow> bool" where
  "re_domain [] = False"
| "re_domain (c # cs) =
     (is_word_char c
      \<and> (re_domain cs \<or> (case cs of d # r \<Rightarrow> d = CHR ''.'' \<and> re_tld r | [] \<Rightarrow> False)))"

text \<open>\<open>[\w+.]+@\w+[.][a-z]{2,3}\<close> at the start of the text.\<close>

fun re_local :: "string \<Rightarrow> bool" where
  "re_local [] = False"
| "re_local (c # cs) =
     ((is_word_char c \<or> c = CHR ''+'' \<or> c = CHR ''.'')
      \<and> (re_local cs \<or> (case cs of d # r \<Rightarrow> d = CHR ''@'' \<and> re_domain r | [] \<Rightarrow> False)))"

text \<open>The search for a match from each position, with the knowledge whether the character
  before the position is a \<open>\w\<close>.\<close>

fun re_email_search :: "bool \<Rightarrow> string \<Rightarrow> bool" where
  "re_email_search prev_word [] = False"
| "re_email_search prev_word (c # cs) =
     ((\<not> prev_word \<and> is_ascii_letter c \<and> re_local cs) \<or> re_email_search (is_word_char c) cs)"

definition Email :: "string \<Rightarrow> py_error + string" where
  "Email v =
     (if \<not> re_email_search False v
      then Inl (ValueError [''Wrong format. Example: '' @ [CHR 0x22] @ ''mymail@gmail.com''
                            @ [CHR 0x22]])
      else Inr v)"

section \<open>Record\<close>

text \<open>A record owns its name, the list of its phones, and an optional birthday and
  email. (The check of an email address is not part of this development; the field holds
  the address.)\<close>

record Record =
  name :: name
  phones :: "phone list"
  birthday :: "birthday option"
  email :: "string option"

definition Record_init :: "name \<Rightarrow> phone option \<Rightarrow> Record" where
  "Record_init n ph =
     \<lparr>name = n, phones = (case ph of None \<Rightarrow> [] | Some p \<Rightarrow> [p]), birthday = None,
      email = None\<rparr>"

definition add_phone_to :: "Record \<Rightarrow> phone \<Rightarrow> string \<times> Record" where
  "add_phone_to r ph =
     (''Phone '' @ ph @ '' was added successfully'', r\<lparr>phones := phones r @ [ph]\<rparr>)"

text \<open>\<open>Record.change\<close>: a \<open>for\<close> loop over the phones whose body returns in both branches
  of its \<open>if\<close>; after the loop the method ends without a \<open>return\<close>, which gives \<open>None\<close>.
  \<open>list.remove\<close> takes out the first element equal to the one found.\<close>

fun change_loop :: "phone list \<Rightarrow> Record \<Rightarrow> phone \<Rightarrow> phone \<Rightarrow> string option \<times> Record" where
  "change_loop [] r old_phone new_phone = (None, r)"
| "change_loop (ph # rest) r old_phone new_phone =
     (if ph = old_phone
      then (Some (''Phone '' @ old_phone @ '' was successfully changed to '' @ new_phone),
            r\<lparr>phones := remove1 ph (phones r) @ [new_phone]\<rparr>)
      else (Some (''Phone number '' @ [CHR 0x27] @ old_phone @ [CHR 0x27]
                    @ '' was not found in the record''), r))"

definition Record_change :: "Record \<Rightarrow> phone \<Rightarrow> phone \<Rightarrow> string option \<times> Record" where
  "Record_change r old_phone new_phone = change_loop (phones r) r old_phone new_phone"

text \<open>\<open>Record.days_to_birthday\<close>, with the current date as an argument.\<close>

definition will_be_in :: "name \<Rightarrow> int \<Rightarrow> string" where
  "will_be_in n delta = n @ [CHR 0x27] @ ''s birthday will be in '' @ str_int delta @ '' days''"

definition Record_days_to_birthday :: "date \<Rightarrow> Record \<Rightarrow> py_error + string" where
  "Record_days_to_birthday cur_date r =
     (let cur_year = year cur_date
      in (case birthday r of
            None \<Rightarrow> Inr (name r @ [CHR 0x27] @ ''s birthday is unknown'')
          | Some bd \<Rightarrow>
              (case replace_year bd cur_year of
                 Inl e \<Rightarrow> Inl e
               | Inr this_year_bd \<Rightarrow>
                   (let delta = toordinal this_year_bd - toordinal cur_date
                    in if delta > 0 then Inr (will_be_in (name r) delta)
                       else (case replace_year this_year_bd (cur_year + 1) of
                               Inl e \<Rightarrow> Inl e
                             | Inr next_year_bd \<Rightarrow>
                                 Inr (will_be_in (name r)
                                        (toordinal next_year_bd - toordinal cur_date)))))))"

text \<open>\<open>Record.add_birthday\<close>, \<open>Record.add_email\<close> and \<open>Record.remove_phone\<close>. The last one
  builds a \<open>Phone\<close> from the text before it looks for it, and its \<open>return\<close> after the loop
  gives the message that the number was not found.\<close>

definition Record_add_birthday :: "Record \<Rightarrow> birthday \<Rightarrow> Record" where
  "Record_add_birthday r b = r\<lparr>birthday := Some b\<rparr>"

definition Record_add_email :: "Record \<Rightarrow> string \<Rightarrow> Record" where
  "Record_add_email r e = r\<lparr>email := Some e\<rparr>"

fun remove_phone_loop :: "phone list \<Rightarrow> Record \<Rightarrow> phone \<Rightarrow> string \<times> Record" where
  "remove_phone_loop [] r ph_new = (''Number '' @ ph_new @ '' not found'', r)"
| "remove_phone_loop (ph # rest) r ph_new =
     (if ph = ph_new
      then (''Phone '' @ ph @ '' was successfully removed from '' @ name r,
            r\<lparr>phones := remove1 ph (phones r)\<rparr>)
      else remove_phone_loop rest r ph_new)"

definition Record_remove_phone :: "Record \<Rightarrow> string \<Rightarrow> (py_error + string) \<times> Record" where
  "Record_remove_phone r ph_text =
     (case Phone ph_text of
        Inl e \<Rightarrow> (Inl e, r)
      | Inr ph_new \<Rightarrow> (case remove_phone_loop (phones r) r ph_new of (msg, r') \<Rightarrow> (Inr msg, r')))"

section \<open>AddressBook\<close>

text \<open>The book is a dictionary from names to records, iterated in insertion order: a
  list of pairs with one pair per key. A record changed in place is written back under
  its key.\<close>

type_synonym AddressBook = "(string \<times> Record) list"

fun dict_set :: "('k \<times> 'v) list \<Rightarrow> 'k \<Rightarrow> 'v \<Rightarrow> ('k \<times> 'v) list" where
  "dict_set [] k v = [(k, v)]"
| "dict_set ((k', v') # ps) k v = (if k' = k then (k, v) # ps else (k', v') # dict_set ps k v)"

definition add_record :: "AddressBook \<Rightarrow> Record \<Rightarrow> AddressBook" where
  "add_record book r = dict_set book (name r) r"

definition remove_record :: "AddressBook \<Rightarrow> Record \<Rightarrow> AddressBook" where
  "remove_record book r = filter (\<lambda>(k, v). k \<noteq> name r) book"

text \<open>\<open>str\<close> of an optional field inside an f-string: \<open>None\<close> prints as \<open>None\<close>.\<close>

definition str_birthday :: "birthday option \<Rightarrow> string" where
  "str_birthday b = (case b of None \<Rightarrow> ''None'' | Some d \<Rightarrow> Birthday_str d)"

definition str_email :: "string option \<Rightarrow> string" where
  "str_email e = (case e of None \<Rightarrow> ''None'' | Some a \<Rightarrow> a)"

text \<open>\<open>search_in_file\<close>: the line added for a record, the inner loop over its phones and
  the outer loop over the records.\<close>

definition search_line :: "Record \<Rightarrow> string" where
  "search_line r =
     ''Name: '' @ name r @ '' Birthday: '' @ str_birthday (birthday r) @ '' Phone: ''
     @ join '','' (phones r) @ [CHR 0x0A]"

fun search_phones :: "string \<Rightarrow> Record \<Rightarrow> phone list \<Rightarrow> string" where
  "search_phones data r [] = []"
| "search_phones data r (ph # rest) =
     (if contains ph (lower data) then search_line r else []) @ search_phones data r rest"

fun search_records :: "string \<Rightarrow> Record list \<Rightarrow> string" where
  "search_records data [] = []"
| "search_records data (r # rs) =
     (if contains (lower (name r)) (lower data) then search_line r
      else search_phones data r (phones r))
     @ search_records data rs"

definition search_in_file :: "AddressBook \<Rightarrow> string \<Rightarrow> string" where
  "search_in_file book data = search_records data (map snd book)"

definition show_one_record :: "AddressBook \<Rightarrow> string \<Rightarrow> py_error + string" where
  "show_one_record book n =
     (case map_of book n of
        None \<Rightarrow> Inl KeyError
      | Some r \<Rightarrow>
          Inr (''Name: '' @ n @ ''; Birthday: '' @ str_birthday (birthday r) @ ''; Phone: ''
               @ join '', '' (phones r) @ ''; Email: '' @ str_email (email r)))"

text \<open>\<open>change_record\<close> drops what \<open>Record.change\<close> returns. A record object is always
  true in a condition, so \<open>if record\<close> asks only whether the name is in the book.\<close>

definition change_record :: "AddressBook \<Rightarrow> string \<Rightarrow> phone \<Rightarrow> phone \<Rightarrow> AddressBook" where
  "change_record book username old_n new_n =
     (case map_of book username of
        None \<Rightarrow> book
      | Some r \<Rightarrow> dict_set book username (snd (Record_change r old_n new_n)))"

text \<open>\<open>show_all_records\<close> joins one line per record with newlines. \<open>iterator\<close> yields one
  string with the lines of the first \<open>n\<close> records, \<open>n\<close> cut down to the number of records;
  the handler joins what it yields.\<close>

definition show_all_line :: "Record \<Rightarrow> string" where
  "show_all_line r =
     ''Name: '' @ name r @ '' Birthday: '' @ str_birthday (birthday r) @ ''; Phone: ''
     @ join '', '' (phones r) @ '' Email: '' @ str_email (email r)"

definition show_all_records :: "AddressBook \<Rightarrow> string" where
  "show_all_records book = join [CHR 0x0A] (map (show_all_line \<circ> snd) book)"

definition iterator_line :: "Record \<Rightarrow> string" where
  "iterator_line r =
     name r @ '' (B-day: '' @ str_birthday (birthday r) @ ''): '' @ join '', '' (phones r)
     @ [CHR 0x0A]"

fun iterator_loop :: "Record list \<Rightarrow> int \<Rightarrow> int \<Rightarrow> string \<Rightarrow> string" where
  "iterator_loop [] count' n result = result"
| "iterator_loop (r # rs) count' n result =
     (if count' < n then iterator_loop rs (count' + 1) n (result @ iterator_line r)
      else iterator_loop rs count' n result)"

definition iterator :: "AddressBook \<Rightarrow> int \<Rightarrow> string" where
  "iterator book n =
     (let records_num = int (length book);
          n' = (if n > records_num then records_num else n)
      in iterator_loop (map snd book) 0 n' [])"

section \<open>Command handlers\<close>

text \<open>A handler takes the argument list and the book and returns its result, a string or
  a raised exception, with the book as it has left it.\<close>

type_synonym handler = "string list \<Rightarrow> AddressBook \<Rightarrow> (py_error + string) \<times> AddressBook"

text \<open>The decorator catches the four exceptions of its \<open>except\<close> clauses; any other
  exception passes. \<open>exception.args[0]\<close> raises \<open>IndexError\<close> inside the clause when the
  \<open>ValueError\<close> has no message. The state that the wrapped function works on is the book
  for most handlers, and the console with the book for \<open>add_phone\<close>.\<close>

definition error_handler ::
    "(string list \<Rightarrow> 's \<Rightarrow> (py_error + string) \<times> 's) \<Rightarrow> string list \<Rightarrow> 's
     \<Rightarrow> (py_error + string) \<times> 's" where
  "error_handler func args book =
     (case func args book of
        (Inr res, book') \<Rightarrow> (Inr res, book')
      | (Inl IndexError, book') \<Rightarrow>
          (Inr (''You didn'' @ [CHR 0x27] @ ''t provide contact name or phone number''), book')
      | (Inl (ValueError exception_args), book') \<Rightarrow>
          (case exception_args of [] \<Rightarrow> (Inl IndexError, book') | m # _ \<Rightarrow> (Inr m, book'))
      | (Inl KeyError, book') \<Rightarrow> (Inr ''User is not in contact list'', book')
      | (Inl TypeError, book') \<Rightarrow>
          (Inr (''You didn'' @ [CHR 0x27] @ ''t provide enough parameters''), book')
      | (Inl EOFError, book') \<Rightarrow> (Inl EOFError, book'))"

text \<open>\<open>args[i]\<close>.\<close>

definition arg :: "string list \<Rightarrow> nat \<Rightarrow> py_error + string" where
  "arg args i = (if i < length args then Inr (args ! i) else Inl IndexError)"

definition change_body :: handler where
  "change_body args book =
     (case arg args 0 of
        Inl e \<Rightarrow> (Inl e, book)
      | Inr a0 \<Rightarrow>
          let n = Name a0
          in (case arg args 1 of
                Inl e \<Rightarrow> (Inl e, book)
              | Inr a1 \<Rightarrow>
                  (case Phone a1 of
                     Inl e \<Rightarrow> (Inl e, book)
                   | Inr old_ph \<Rightarrow>
                       (case arg args 2 of
                          Inl e \<Rightarrow> (Inl e, book)
                        | Inr a2 \<Rightarrow>
                            (case Phone a2 of
                               Inl e \<Rightarrow> (Inl e, book)
                             | Inr new_ph \<Rightarrow>
                                 (if \<not> isnumeric new_ph then (Inl (ValueError []), book)
                                  else (Inr (''You just changed number for contact ''
                                             @ [CHR 0x27] @ n @ [CHR 0x27]
                                             @ ''. New number is '' @ [CHR 0x27] @ new_ph
                                             @ [CHR 0x27]),
                                        change_record book n old_ph new_ph)))))))"

definition change :: handler where
  "change = error_handler change_body"

definition phone_body :: handler where
  "phone_body args book =
     (case arg args 0 of
        Inl e \<Rightarrow> (Inl e, book)
      | Inr a0 \<Rightarrow> (show_one_record book a0, book))"

definition phone :: handler where
  "phone = error_handler phone_body"

definition days_to_birthday_body :: "date \<Rightarrow> handler" where
  "days_to_birthday_body today args book =
     (case arg args 0 of
        Inl e \<Rightarrow> (Inl e, book)
      | Inr a0 \<Rightarrow>
          let n = Name a0
          in (case map_of book n of
                None \<Rightarrow> (Inr (n @ '' is not in your contacts''), book)
              | Some r \<Rightarrow>
                  (case birthday r of
                     None \<Rightarrow> (Inr (n @ [CHR 0x27] @ ''s birthday is not set''), book)
                   | Some b \<Rightarrow> (Record_days_to_birthday today r, book))))"

definition days_to_birthday :: "date \<Rightarrow> handler" where
  "days_to_birthday today = error_handler (days_to_birthday_body today)"

text \<open>\<open>search\<close> is defined without the decorator.\<close>

definition search :: handler where
  "search args book =
     (case arg args 0 of
        Inl e \<Rightarrow> (Inl e, book)
      | Inr a0 \<Rightarrow> (Inr (search_in_file book a0), book))"

definition hello_body :: handler where
  "hello_body args book = (Inr ''How can I help you?'', book)"

definition hello :: handler where
  "hello = error_handler hello_body"

definition HELP_INSTRUCTIONS :: string where
  "HELP_INSTRUCTIONS =
     ''This contact bot save your contacts ''
     @ [CHR 0x0A] @ ''    Global commands:''
     @ [CHR 0x0A] @ ''      '' @ [CHR 0x27] @ ''add contact'' @ [CHR 0x27] @ '' - add new contact. Input user name and phone''
     @ [CHR 0x0A] @ ''    Example: add User_name 095-xxx-xx-xx''
     @ [CHR 0x0A] @ ''      '' @ [CHR 0x27] @ ''add birthday'' @ [CHR 0x27] @ '' - add birthday of some User. Input user name and birthday in format dd-mm-yyyy''
     @ [CHR 0x0A] @ ''    Example: add User_name 1971-01-01''
     @ [CHR 0x0A] @ ''      '' @ [CHR 0x27] @ ''add email'' @ [CHR 0x27] @ '' - add email of some User.''
     @ [CHR 0x0A] @ ''    Example: add email User_name example@mail.com''
     @ [CHR 0x0A] @ ''      '' @ [CHR 0x27] @ ''change'' @ [CHR 0x27] @ '' - change users old phone to new phone. Input user name, old phone and new phone''
     @ [CHR 0x0A] @ ''    Example: change User_name 095-xxx-xx-xx 050-xxx-xx-xx''
     @ [CHR 0x0A] @ ''      '' @ [CHR 0x27] @ ''delete contact'' @ [CHR 0x27] @ '' - delete contact (name and phones). Input user name''
     @ [CHR 0x0A] @ ''    Example: delete contact User_name''
     @ [CHR 0x0A] @ ''      '' @ [CHR 0x27] @ ''delete phone'' @ [CHR 0x27] @ '' - delete phone of some User. Input user name and phone''
     @ [CHR 0x0A] @ ''    Example: delete phone User_name 099-xxx-xx-xx''
     @ [CHR 0x0A] @ ''      '' @ [CHR 0x27] @ ''show'' @ [CHR 0x27] @ '' - show contacts of input user. Input user name''
     @ [CHR 0x0A] @ ''    Example: show User_name''
     @ [CHR 0x0A] @ ''      '' @ [CHR 0x27] @ ''show all'' @ [CHR 0x27] @ '' - show all contacts''
     @ [CHR 0x0A] @ ''    Example: show all''
     @ [CHR 0x0A] @ ''      '' @ [CHR 0x27] @ ''show list'' @ [CHR 0x27] @ '' - show list of contacts which contains N-users''
     @ [CHR 0x0A] @ ''    Example: show list 5 ''
     @ [CHR 0x0A] @ ''      '' @ [CHR 0x27] @ ''when birthday'' @ [CHR 0x27] @ '' - show days to birthday of User/ Input user name''
     @ [CHR 0x0A] @ ''    Example: when celebrate User_name''
     @ [CHR 0x0A] @ ''      '' @ [CHR 0x27] @ ''exit/'' @ [CHR 0x27] @ ''.'' @ [CHR 0x27] @ ''/'' @ [CHR 0x27] @ ''bye'' @ [CHR 0x27] @ ''/'' @ [CHR 0x27] @ ''good bye'' @ [CHR 0x27] @ ''/'' @ [CHR 0x27] @ ''close'' @ [CHR 0x27] @ '' - exit bot''
     @ [CHR 0x0A] @ ''    Example: good bye''"

definition helper_body :: handler where
  "helper_body args book = (Inr HELP_INSTRUCTIONS, book)"

definition helper :: handler where
  "helper = error_handler helper_body"

text \<open>\<open>delete_contact\<close> raises \<open>IndexError\<close> itself when the name is the empty string.\<close>

definition delete_contact_body :: handler where
  "delete_contact_body args book =
     (case arg args 0 of
        Inl e \<Rightarrow> (Inl e, book)
      | Inr a0 \<Rightarrow>
          (let n = Name a0; rec = Record_init n None
           in if n \<noteq> [] then (Inr (n @ '' was deleted from your contact list''),
                                remove_record book rec)
              else (Inl IndexError, book)))"

definition delete_contact :: handler where
  "delete_contact = error_handler delete_contact_body"

definition add_email_body :: handler where
  "add_email_body args book =
     (case arg args 0 of
        Inl e \<Rightarrow> (Inl e, book)
      | Inr a0 \<Rightarrow>
          (let n = Name a0
           in (case arg args 1 of
                 Inl e \<Rightarrow> (Inl e, book)
               | Inr a1 \<Rightarrow>
                   (case Email a1 of
                      Inl e \<Rightarrow> (Inl e, book)
                    | Inr em \<Rightarrow>
                        (case map_of book n of
                           Some rec \<Rightarrow> (Inr (''Email for '' @ n @ '' was added''),
                                        dict_set book n (Record_add_email rec em))
                         | None \<Rightarrow> (Inr (n @ '' is not in your contact list''), book))))))"

definition add_email :: handler where
  "add_email = error_handler add_email_body"

definition add_birthday_body :: "date \<Rightarrow> handler" where
  "add_birthday_body today args book =
     (case arg args 0 of
        Inl e \<Rightarrow> (Inl e, book)
      | Inr a0 \<Rightarrow>
          (let n = Name a0
           in (case arg args 1 of
                 Inl e \<Rightarrow> (Inl e, book)
               | Inr a1 \<Rightarrow>
                   (case Birthday today a1 of
                      Inl e \<Rightarrow> (Inl e, book)
                    | Inr b \<Rightarrow>
                        (case map_of book n of
                           Some rec \<Rightarrow> (Inr (''The birthday for '' @ n @ '' was added''),
                                        dict_set book n (Record_add_birthday rec b))
                         | None \<Rightarrow> (Inr (n @ '' is not in your contact list''), book))))))"

definition add_birthday :: "date \<Rightarrow> handler" where
  "add_birthday today = error_handler (add_birthday_body today)"

text \<open>\<open>delete_phone\<close> drops what \<open>remove_phone\<close> returns and reports the deletion whenever the
  contact exists.\<close>

definition delete_phone_body :: handler where
  "delete_phone_body args book =
     (case arg args 0 of
        Inl e \<Rightarrow> (Inl e, book)
      | Inr a0 \<Rightarrow>
          (let n = Name a0
           in (case arg args 1 of
                 Inl e \<Rightarrow> (Inl e, book)
               | Inr a1 \<Rightarrow>
                   (case Phone a1 of
                      Inl e \<Rightarrow> (Inl e, book)
                    | Inr ph \<Rightarrow>
                        (case map_of book n of
                           Some rec \<Rightarrow>
                             (case Record_remove_phone rec ph of
                                (Inl e, rec') \<Rightarrow> (Inl e, dict_set book n rec')
                              | (Inr msg, rec') \<Rightarrow>
                                  (Inr (''Phone '' @ ph @ '' was deleted from '' @ n @ '' ''),
                                   dict_set book n rec'))
                         | None \<Rightarrow> (Inr (''Contact '' @ n @ '' does not exist''), book))))))"

definition delete_phone :: handler where
  "delete_phone = error_handler delete_phone_body"

definition show_all_body :: handler where
  "show_all_body args book =
     (if length book > 0 then (Inr (show_all_records book), book)
      else (Inr ''Your addressbook is empty'', book))"

definition show_all :: handler where
  "show_all = error_handler show_all_body"

definition show_list_body :: handler where
  "show_list_body args book =
     (if length book \<noteq> 0
      then (case arg args 0 of
              Inl e \<Rightarrow> (Inl e, book)
            | Inr a0 \<Rightarrow>
                (case py_int a0 of
                   Inl e \<Rightarrow> (Inl e, book)
                 | Inr n \<Rightarrow> (Inr (iterator book n), book)))
      else (Inr ''Your address book is empty'', book))"

definition show_list :: handler where
  "show_list = error_handler show_list_body"

text \<open>\<open>add_phone\<close> asks on the console when the name is in the book already. The console
  is the list of the lines still to be read and the list of the texts written so far;
  \<open>input\<close> writes its prompt, takes the next line, and raises \<open>EOFError\<close> when there is
  none.\<close>

type_synonym console = "string list \<times> string list"

definition add_phone_prompt :: "name \<Rightarrow> string" where
  "add_phone_prompt n =
     ''Contact with this name already exist, do you want to rewrite it (1), create new record (2) or add this number to ''
     @ [CHR 0x27] @ n @ [CHR 0x27] @ '' (3)?'' @ [CHR 0x0A]"

definition please_type :: string where
  "please_type =
     ''Please type '' @ [CHR 0x27] @ ''1'' @ [CHR 0x27] @ '' or '' @ [CHR 0x27] @ ''2''
     @ [CHR 0x27] @ '' or '' @ [CHR 0x27] @ ''3'' @ [CHR 0x27] @ '' to continue''"

text \<open>The \<open>while True\<close> loop: it ends with the name, the record and the book as the chosen
  branch leaves them, or with \<open>EOFError\<close>.\<close>

fun add_phone_loop :: "name \<Rightarrow> Record \<Rightarrow> AddressBook \<Rightarrow> console
    \<Rightarrow> (py_error + name \<times> Record option \<times> AddressBook) \<times> console" where
  "add_phone_loop n rec book ([], out) = (Inl EOFError, ([], out @ [add_phone_prompt n]))"
| "add_phone_loop n rec book (user_input # ins, out) =
     (if user_input = ''2''
      then (Inr (n @ ''(1)'', map_of book (n @ ''(1)''), book), (ins, out @ [add_phone_prompt n]))
      else if user_input = ''1''
      then (let book' = remove_record book rec
            in (Inr (n, map_of book' n, book'), (ins, out @ [add_phone_prompt n])))
      else if user_input = ''3''
      then (Inr (n, Some rec, book), (ins, out @ [add_phone_prompt n]))
      else add_phone_loop n rec book (ins, out @ [add_phone_prompt n, please_type]))"

text \<open>What follows the loop: the second test of the phone, and the phone added to the
  record found or to a new record.\<close>

definition add_phone_finish :: "name \<Rightarrow> phone \<Rightarrow> Record option \<Rightarrow> AddressBook
    \<Rightarrow> (py_error + string) \<times> AddressBook" where
  "add_phone_finish n ph rec book =
     (if \<not> isnumeric ph then (Inl (ValueError []), book)
      else (Inr (''You just added contact '' @ [CHR 0x22] @ n @ [CHR 0x22] @ '' with phone ''
                 @ [CHR 0x22] @ ph @ [CHR 0x22] @ '' to your list of contacts''),
            (case rec of
               Some r \<Rightarrow> dict_set book n (snd (add_phone_to r ph))
             | None \<Rightarrow> add_record book (Record_init n (Some ph)))))"

definition add_phone_body :: "string list \<Rightarrow> console \<times> AddressBook
    \<Rightarrow> (py_error + string) \<times> (console \<times> AddressBook)" where
  "add_phone_body args w =
     (case w of
        (con, book) \<Rightarrow>
          (case arg args 0 of
             Inl e \<Rightarrow> (Inl e, w)
           | Inr a0 \<Rightarrow>
               (let n = Name a0
                in (case arg args 1 of
                      Inl e \<Rightarrow> (Inl e, w)
                    | Inr a1 \<Rightarrow>
                        (case Phone a1 of
                           Inl e \<Rightarrow> (Inl e, w)
                         | Inr ph \<Rightarrow>
                             (case map_of book n of
                                None \<Rightarrow>
                                  (case add_phone_finish n ph None book of
                                     (res, book') \<Rightarrow> (res, (con, book')))
                              | Some rec \<Rightarrow>
                                  (case add_phone_loop n rec book con of
                                     (Inl e, con') \<Rightarrow> (Inl e, (con', book))
                                   | (Inr (n', rec', book'), con') \<Rightarrow>
                                       (case add_phone_finish n' ph rec' book' of
                                          (res, book2) \<Rightarrow> (res, (con', book2))))))))))"

definition add_phone :: "string list \<Rightarrow> console \<times> AddressBook
    \<Rightarrow> (py_error + string) \<times> (console \<times> AddressBook)" where
  "add_phone = error_handler add_phone_body"

section \<open>Command dispatcher\<close>

text \<open>The handlers registered in \<open>COMMANDS\<close>, by name. The dictionary maps each handler
  to its keyword and is iterated in insertion order, so it is an ordered list of pairs.\<close>

datatype command =
    Cmd_show_list | Cmd_delete_phone | Cmd_days_to_birthday | Cmd_add_birthday
  | Cmd_add_phone | Cmd_hello | Cmd_show_all | Cmd_change | Cmd_phone | Cmd_helper
  | Cmd_delete_contact | Cmd_search | Cmd_add_email

definition COMMANDS :: "(command \<times> string) list" where
  "COMMANDS =
     [(Cmd_show_list, ''show list''),
      (Cmd_delete_phone, ''delete phone''),
      (Cmd_days_to_birthday, ''when birthday''),
      (Cmd_add_birthday, ''add birthday''),
      (Cmd_add_phone, ''add contact''),
      (Cmd_hello, ''hello''),
      (Cmd_show_all, ''show all''),
      (Cmd_change, ''change''),
      (Cmd_phone, ''show''),
      (Cmd_helper, ''help''),
      (Cmd_delete_contact, ''delete contact''),
      (Cmd_search, ''search''),
      (Cmd_add_email, ''add email'')]"

text \<open>What \<open>command_parser\<close> prints when no keyword is a prefix of the input.\<close>

definition maybe_you_meant :: "string \<Rightarrow> string" where
  "maybe_you_meant possible_command =
     ''Maybe you meant '' @ [CHR 0x27] @ possible_command @ [CHR 0x27] @ '' ?''"

text \<open>The loop of \<open>command_parser\<close> over the table, with the running \<open>ratio\<close> and
  \<open>possible_command\<close>. The result is the list of printed lines and the returned pair.\<close>

fun command_loop :: "string \<Rightarrow> (command \<times> string) list \<Rightarrow> rat \<Rightarrow> string \<Rightarrow>
    string list \<times> command option \<times> string list option" where
  "command_loop user_input [] ratio' possible_command =
     ([maybe_you_meant possible_command], None, None)"
| "command_loop user_input ((command, key_word) # rest) ratio' possible_command =
     (if startswith user_input key_word
      then ([], Some command, Some (split (strip (replace user_input key_word [])) CHR '' ''))
      else
        let a = ratio user_input key_word
        in if a > ratio' then command_loop user_input rest a key_word
           else command_loop user_input rest ratio' possible_command)"

definition command_parser :: "string \<Rightarrow> string list \<times> command option \<times> string list option" where
  "command_parser user_input = command_loop user_input COMMANDS 0 []"

section \<open>Calling a handler\<close>

text \<open>The call \<open>command(*data)\<close> of the main loop: the handler that the table registers
  under the command, on the console and the book. The handlers that do not use the
  console leave it as it is.\<close>

definition on_book :: "handler \<Rightarrow> string list \<Rightarrow> console \<times> AddressBook
    \<Rightarrow> (py_error + string) \<times> (console \<times> AddressBook)" where
  "on_book h args w =
     (case w of (con, book) \<Rightarrow> (case h args book of (res, book') \<Rightarrow> (res, (con, book'))))"

fun call :: "date \<Rightarrow> command \<Rightarrow> string list \<Rightarrow> console \<times> AddressBook
    \<Rightarrow> (py_error + string) \<times> (console \<times> AddressBook)" where
  "call today Cmd_show_list args w = on_book show_list args w"
| "call today Cmd_delete_phone args w = on_book delete_phone args w"
| "call today Cmd_days_to_birthday args w = on_book (days_to_birthday today) args w"
| "call today Cmd_add_birthday args w = on_book (add_birthday today) args w"
| "call today Cmd_add_phone args w = add_phone args w"
| "call today Cmd_hello args w = on_book hello args w"
| "call today Cmd_show_all args w = on_book show_all args w"
| "call today Cmd_change args w = on_book change args w"
| "call today Cmd_phone args w = on_book phone args w"
| "call today Cmd_helper args w = on_book helper args w"
| "call today Cmd_delete_contact args w = on_book delete_contact args w"
| "call today Cmd_search args w = on_book search args w"
| "call today Cmd_add_email args w = on_book add_email args w"

section \<open>Main loop\<close>

text \<open>One pass of the loop of \<open>main\<close> first looks the lower-cased line up in \<open>end_words\<close>;
  a line found there starts the question about saving, every other line goes to
  \<open>command_parser\<close>.\<close>

definition end_words :: "string list" where
  "end_words = [''.'', ''close'', ''bye'', ''exit'']"

datatype iteration =
    Exit_sequence
  | Dispatch "string list \<times> command option \<times> string list option"

definition main_iteration :: "string \<Rightarrow> iteration" where
  "main_iteration user_input =
     (if lower user_input \<in> set end_words then Exit_sequence
      else Dispatch (command_parser (lower user_input)))"

section \<open>Vocabulary of the specification\<close>

text \<open>The spec's wording of the suggestion: the keyword of the table with the highest
  ratio to the input, the earliest one among equals.\<close>

definition first_best :: "string \<Rightarrow> string list \<Rightarrow> string \<Rightarrow> bool" where
  "first_best u ks s =
     (\<exists>i<length ks. ks ! i = s \<and> (\<forall>j<length ks. ratio u (ks ! j) \<le> ratio u s)
        \<and> (\<forall>j<i. ratio u (ks ! j) < ratio u s))"

text \<open>A text of the form \<open>DD-MM-YYYY\<close>: two digits, a hyphen, two digits, a hyphen and four
  digits, which name a date of the calendar that is not after \<open>today\<close>.\<close>

definition valid_birthday_text :: "date \<Rightarrow> string \<Rightarrow> bool" where
  "valid_birthday_text today s =
     (case s of
        [d1, d2, h1, m1, m2, h2, y1, y2, y3, y4] \<Rightarrow>
          h1 = CHR ''-'' \<and> h2 = CHR ''-''
          \<and> list_all (in_range CHR ''0'' CHR ''9'') [d1, d2, m1, m2, y1, y2, y3, y4]
          \<and> (let d = 10 * digit_value d1 + digit_value d2;
                  m = 10 * digit_value m1 + digit_value m2;
                  y = 1000 * digit_value y1 + 100 * digit_value y2 + 10 * digit_value y3
                      + digit_value y4
              in check_date y m d \<and> \<not> date_gt \<lparr>year = y, month = m, day = d\<rparr> today)
      | _ \<Rightarrow> False)"

text \<open>The four decimal digits of a number below 10000.\<close>

definition pad4 :: "nat \<Rightarrow> string" where
  "pad4 n = [digit_char (n div 1000 mod 10), digit_char (n div 100 mod 10),
             digit_char (n div 10 mod 10), digit_char (n mod 10)]"

text \<open>What a handler body may raise under the decorator and still give a string: anything
  but a \<open>ValueError\<close> without a message and \<open>EOFError\<close>.\<close>

definition raises_handled :: "py_error + string \<Rightarrow> bool" where
  "raises_handled r = (r \<noteq> Inl (ValueError []) \<and> r \<noteq> Inl EOFError)"

section \<open>Auxiliary facts\<close>

subsection \<open>The dispatcher\<close>

text \<open>When some keyword is a prefix of the input, the loop returns at the first such
  keyword of the table, whatever the ratios of the keywords before it.\<close>

lemma command_loop_prefix:
  "list_all (\<lambda>(c, k). \<not> startswith u k) pre \<Longrightarrow> startswith u key \<Longrightarrow>
   command_loop u (pre @ (c, key) # post) r p =
     ([], Some c, Some (split (strip (replace u key [])) CHR '' ''))"
  by (induction pre arbitrary: r p) (auto simp: Let_def)

lemma first_best_here:
  assumes "\<forall>k\<in>set ks. ratio u k \<le> ratio u s"
  shows "first_best u (s # ks) s"
proof -
  have "\<forall>j<length (s # ks). ratio u ((s # ks) ! j) \<le> ratio u s"
    using assms by (auto simp: nth_Cons split: nat.splits)
  then show ?thesis
    unfolding first_best_def by (intro exI[of _ 0]) simp
qed

lemma first_best_later:
  assumes "first_best u ks s" and "ratio u k < ratio u s"
  shows "first_best u (k # ks) s"
proof -
  from assms(1) obtain i where i: "i < length ks" "ks ! i = s"
    "\<forall>j<length ks. ratio u (ks ! j) \<le> ratio u s" "\<forall>j<i. ratio u (ks ! j) < ratio u s"
    unfolding first_best_def by blast
  have a: "\<forall>j<length (k # ks). ratio u ((k # ks) ! j) \<le> ratio u s"
    using i(3) assms(2) by (auto simp: nth_Cons split: nat.splits)
  have b: "\<forall>j<Suc i. ratio u ((k # ks) ! j) < ratio u s"
    using i(4) assms(2) by (auto simp: nth_Cons split: nat.splits)
  show ?thesis
    unfolding first_best_def using i(1,2) a b by (intro exI[of _ "Suc i"]) simp
qed

lemma command_loop_no_prefix:
  assumes "list_all (\<lambda>(c, k). \<not> startswith u k) t"
  shows "\<exists>s. command_loop u t r p = ([maybe_you_meant s], None, None) \<and>
           ((s = p \<and> (\<forall>k\<in>set (map snd t). ratio u k \<le> r))
            \<or> (r < ratio u s \<and> first_best u (map snd t) s))"
  using assms
proof (induction t arbitrary: r p)
  case Nil
  then show ?case by auto
next
  case (Cons ck t)
  obtain c k where ck: "ck = (c, k)" by (cases ck)
  from Cons.prems ck have nk: "\<not> startswith u k" and rest: "list_all (\<lambda>(c, k). \<not> startswith u k) t"
    by auto
  show ?case
  proof (cases "ratio u k > r")
    case True
    from Cons.IH[OF rest, of "ratio u k" k] obtain s where
      s: "command_loop u t (ratio u k) k = ([maybe_you_meant s], None, None)"
      and d: "(s = k \<and> (\<forall>k'\<in>set (map snd t). ratio u k' \<le> ratio u k))
              \<or> (ratio u k < ratio u s \<and> first_best u (map snd t) s)" by blast
    have run: "command_loop u (ck # t) r p = ([maybe_you_meant s], None, None)"
      using ck nk True s by simp
    from d have "r < ratio u s \<and> first_best u (map snd (ck # t)) s"
    proof
      assume "s = k \<and> (\<forall>k'\<in>set (map snd t). ratio u k' \<le> ratio u k)"
      then show ?thesis using True ck first_best_here[of "map snd t" u k] by simp
    next
      assume "ratio u k < ratio u s \<and> first_best u (map snd t) s"
      then show ?thesis using True ck first_best_later[of u "map snd t" s k] by simp
    qed
    with run show ?thesis by blast
  next
    case False
    from Cons.IH[OF rest, of r p] obtain s where
      s: "command_loop u t r p = ([maybe_you_meant s], None, None)"
      and d: "(s = p \<and> (\<forall>k'\<in>set (map snd t). ratio u k' \<le> r))
              \<or> (r < ratio u s \<and> first_best u (map snd t) s)" by blast
    have run: "command_loop u (ck # t) r p = ([maybe_you_meant s], None, None)"
      using ck nk False s by simp
    from d have "(s = p \<and> (\<forall>k'\<in>set (map snd (ck # t)). ratio u k' \<le> r))
              \<or> (r < ratio u s \<and> first_best u (map snd (ck # t)) s)"
    proof
      assume "s = p \<and> (\<forall>k'\<in>set (map snd t). ratio u k' \<le> r)"
      then show ?thesis using False ck by auto
    next
      assume a: "r < ratio u s \<and> first_best u (map snd t) s"
      then have "ratio u k < ratio u s" using False by simp
      with a show ?thesis using ck first_best_later[of u "map snd t" s k] by simp
    qed
    with run show ?thesis by blast
  qed
qed

text \<open>When no keyword is a prefix of the input, the dispatcher returns no handler and no
  arguments. Its suggestion is the keyword with the highest ratio, the earliest one among
  equals, when some keyword has a positive ratio, and the empty string otherwise.\<close>

lemma command_parser_no_prefix:
  assumes "list_all (\<lambda>(c, k). \<not> startswith u k) COMMANDS"
  shows "\<exists>s. command_parser u = ([maybe_you_meant s], None, None)
           \<and> (if list_ex (\<lambda>(c, k). 0 < ratio u k) COMMANDS
              then first_best u (map snd COMMANDS) s else s = [])"
proof -
  from command_loop_no_prefix[OF assms, of 0 "[]"] obtain s where
    s: "command_loop u COMMANDS 0 [] = ([maybe_you_meant s], None, None)"
    and d: "(s = [] \<and> (\<forall>k\<in>set (map snd COMMANDS). ratio u k \<le> 0))
            \<or> (0 < ratio u s \<and> first_best u (map snd COMMANDS) s)" by blast
  show ?thesis
  proof (cases "list_ex (\<lambda>(c, k). 0 < ratio u k) COMMANDS")
    case True
    then obtain c k where "(c, k) \<in> set COMMANDS" "0 < ratio u k"
      by (auto simp: list_ex_iff)
    then have "\<not> (\<forall>k\<in>set (map snd COMMANDS). ratio u k \<le> 0)" by force
    with d have "first_best u (map snd COMMANDS) s" by blast
    with s True show ?thesis by (auto simp: command_parser_def)
  next
    case False
    then have le: "\<forall>k\<in>set (map snd COMMANDS). ratio u k \<le> 0"
      by (auto simp: list_ex_iff not_less)
    have "s = []"
    proof (rule ccontr)
      assume "s \<noteq> []"
      with d have pos: "0 < ratio u s" and fb: "first_best u (map snd COMMANDS) s" by blast+
      from fb have "s \<in> set (map snd COMMANDS)"
        unfolding first_best_def by (metis nth_mem)
      with le pos show False by force
    qed
    with s False show ?thesis by (simp add: command_parser_def)
  qed
qed

subsection \<open>Digits\<close>

lemma char_of_digits:
  "char_of (48::nat) = CHR ''0''" "char_of (49::nat) = CHR ''1''" "char_of (50::nat) = CHR ''2''"
  "char_of (51::nat) = CHR ''3''" "char_of (52::nat) = CHR ''4''" "char_of (53::nat) = CHR ''5''"
  "char_of (54::nat) = CHR ''6''" "char_of (55::nat) = CHR ''7''" "char_of (56::nat) = CHR ''8''"
  "char_of (57::nat) = CHR ''9''"
  by code_simp+

lemma digit_cases:
  assumes "in_range CHR ''0'' CHR ''9'' c"
  shows "c \<in> set ''0123456789''"
proof -
  define n :: nat where "n = of_char c"
  have c: "c = char_of n" by (simp add: n_def)
  from assms have "48 \<le> n \<and> n \<le> 57" by (simp add: in_range_def code_point_def n_def)
  then have "n = 48 \<or> n = 49 \<or> n = 50 \<or> n = 51 \<or> n = 52 \<or> n = 53 \<or> n = 54 \<or> n = 55
      \<or> n = 56 \<or> n = 57" by arith
  then show ?thesis unfolding c by (elim disjE) (simp_all add: char_of_digits)
qed

lemma digit_value_lt: "in_range CHR ''0'' CHR ''9'' c \<Longrightarrow> digit_value c < 10"
  by (auto simp: in_range_def code_point_def digit_value_def)


lemma digit_char_value: "in_range CHR ''0'' CHR ''9'' c \<Longrightarrow> digit_char (digit_value c) = c"
proof -
  assume "in_range CHR ''0'' CHR ''9'' c"
  then have "c \<in> set ''0123456789''" by (rule digit_cases)
  then have "c = CHR ''0'' \<or> c = CHR ''1'' \<or> c = CHR ''2'' \<or> c = CHR ''3'' \<or> c = CHR ''4''
      \<or> c = CHR ''5'' \<or> c = CHR ''6'' \<or> c = CHR ''7'' \<or> c = CHR ''8'' \<or> c = CHR ''9''" by simp
  then show ?thesis
    by (elim disjE) (simp_all add: digit_char_def digit_value_def code_point_def)
qed

lemma pad2_digits:
  assumes "in_range CHR ''0'' CHR ''9'' c1" "in_range CHR ''0'' CHR ''9'' c2"
  shows "pad2 (10 * digit_value c1 + digit_value c2) = [c1, c2]"
proof -
  have a: "digit_value c1 < 10" "digit_value c2 < 10" using assms by (simp_all add: digit_value_lt)
  then have "(10 * digit_value c1 + digit_value c2) div 10 mod 10 = digit_value c1"
    "(10 * digit_value c1 + digit_value c2) mod 10 = digit_value c2" by auto
  then show ?thesis using assms by (simp add: pad2_def digit_char_value)
qed


lemma div_mod_10:
  fixes q d :: nat
  assumes "d < 10"
  shows "(10 * q + d) mod 10 = d" and "(10 * q + d) div 10 = q"
  using assms by simp_all

lemma pad4_digits:
  assumes "in_range CHR ''0'' CHR ''9'' c1" "in_range CHR ''0'' CHR ''9'' c2"
    "in_range CHR ''0'' CHR ''9'' c3" "in_range CHR ''0'' CHR ''9'' c4"
  shows "pad4 (1000 * digit_value c1 + 100 * digit_value c2 + 10 * digit_value c3 + digit_value c4)
         = [c1, c2, c3, c4]"
proof -
  define a b c d where "a = digit_value c1" and "b = digit_value c2" and "c = digit_value c3"
    and "d = digit_value c4"
  define n where "n = 1000 * a + 100 * b + 10 * c + d"
  have lt: "a < 10" "b < 10" "c < 10" "d < 10"
    using assms by (simp_all add: digit_value_lt a_def b_def c_def d_def)
  have n1: "n = 10 * (100 * a + 10 * b + c) + d" by (simp add: n_def)
  have d0: "n mod 10 = d"
    by (subst n1) (rule div_mod_10(1)[OF lt(4)])
  have q1: "n div 10 = 10 * (10 * a + b) + c"
    by (subst n1, subst div_mod_10(2)[OF lt(4)]) simp
  have d1: "n div 10 mod 10 = c"
    by (subst q1) (rule div_mod_10(1)[OF lt(3)])
  have q2: "n div 10 div 10 = 10 * a + b"
    by (subst q1) (rule div_mod_10(2)[OF lt(3)])
  have q2': "n div 100 = 10 * a + b"
    using q2 by (simp add: div_mult2_eq)
  have d2: "n div 100 mod 10 = b"
    by (subst q2') (rule div_mod_10(1)[OF lt(2)])
  have q3: "n div 100 div 10 = a"
    by (subst q2') (rule div_mod_10(2)[OF lt(2)])
  have q3': "n div 1000 = a"
    using q3 by (simp add: div_mult2_eq)
  have d3: "n div 1000 mod 10 = a"
    using lt(1) by (simp add: q3')
  have "pad4 n = [c1, c2, c3, c4]"
    using assms by (simp add: pad4_def d0 d1 d2 d3 digit_char_value a_def b_def c_def d_def)
  then show ?thesis by (simp add: n_def a_def b_def c_def d_def)
qed


text \<open>A number from 1000 to 9999 is printed as its four digits.\<close>

lemma str_nat_four:
  assumes "1000 \<le> n" "n < 10000"
  shows "str_nat n = pad4 n"
proof -
  have e3: "n div 100 div 10 = n div 1000" and e2: "n div 10 div 10 = n div 100"
    by (simp_all add: div_mult2_eq)
  have b3: "n div 1000 < 10" and b2: "\<not> n div 100 < 10" and b1: "\<not> n div 10 < 10"
    and b0: "\<not> n < 10"
    using assms by simp_all
  have s3: "str_nat (n div 1000) = [digit_char (n div 1000)]"
    using b3 by (subst str_nat.simps) simp
  have s2: "str_nat (n div 100) = str_nat (n div 1000) @ [digit_char (n div 100 mod 10)]"
    using b2 by (subst str_nat.simps) (simp add: e3)
  have s1: "str_nat (n div 10) = str_nat (n div 100) @ [digit_char (n div 10 mod 10)]"
    using b1 by (subst str_nat.simps) (simp add: e2)
  have s0: "str_nat n = str_nat (n div 10) @ [digit_char (n mod 10)]"
    using b0 by (subst str_nat.simps) simp
  have "n div 1000 mod 10 = n div 1000" using b3 by simp
  then show ?thesis by (simp add: s0 s1 s2 s3 pad4_def)
qed

lemma digit_disj:
  assumes "in_range CHR ''0'' CHR ''9'' c"
  shows "c = CHR ''0'' \<or> c = CHR ''1'' \<or> c = CHR ''2'' \<or> c = CHR ''3'' \<or> c = CHR ''4''
      \<or> c = CHR ''5'' \<or> c = CHR ''6'' \<or> c = CHR ''7'' \<or> c = CHR ''8'' \<or> c = CHR ''9''"
  using digit_cases[OF assms] by simp

lemmas regex_defs = re_d_def re_m_def re_lit_def two_chars_def one_char_def space_char_def
  in_range_def code_point_def digit_value_def

lemma re_d_dash_two:
  assumes "in_range CHR ''0'' CHR ''9'' c1" "in_range CHR ''0'' CHR ''9'' c2"
    and "1 \<le> 10 * digit_value c1 + digit_value c2" "10 * digit_value c1 + digit_value c2 \<le> 31"
  shows "re_d_dash (c1 # c2 # CHR ''-'' # r) = [(10 * digit_value c1 + digit_value c2, r)]"
  using digit_disj[OF assms(1)] digit_disj[OF assms(2)] assms(3,4)
  by (elim disjE) (simp_all add: re_d_dash_def regex_defs)

lemma re_m_dash_two:
  assumes "in_range CHR ''0'' CHR ''9'' c1" "in_range CHR ''0'' CHR ''9'' c2"
    and "1 \<le> 10 * digit_value c1 + digit_value c2" "10 * digit_value c1 + digit_value c2 \<le> 12"
  shows "re_m_dash (c1 # c2 # CHR ''-'' # r) = [(10 * digit_value c1 + digit_value c2, r)]"
  using digit_disj[OF assms(1)] digit_disj[OF assms(2)] assms(3,4)
  by (elim disjE) (simp_all add: re_m_dash_def regex_defs)


lemma days_in_month_le: "days_in_month y m \<le> 31"
  by (simp add: days_in_month_def)

subsection \<open>Birthday texts\<close>

text \<open>For every text of the form \<open>DD-MM-YYYY\<close> that names a date not after today and whose
  year does not begin with the digit 0, \<open>Birthday\<close> succeeds and printing the birthday gives
  the text back.\<close>

lemma Birthday_round_trip_from_1000:
  assumes "valid_birthday_text today s" and "s ! 6 \<noteq> CHR ''0''"
  shows "\<exists>b. Birthday today s = Inr b \<and> Birthday_str b = s"
proof -
  from assms(1) obtain d1 d2 m1 m2 y1 y2 y3 y4 where
    s: "s = [d1, d2, CHR ''-'', m1, m2, CHR ''-'', y1, y2, y3, y4]"
    and dg: "in_range CHR ''0'' CHR ''9'' d1" "in_range CHR ''0'' CHR ''9'' d2"
      "in_range CHR ''0'' CHR ''9'' m1" "in_range CHR ''0'' CHR ''9'' m2"
      "in_range CHR ''0'' CHR ''9'' y1" "in_range CHR ''0'' CHR ''9'' y2"
      "in_range CHR ''0'' CHR ''9'' y3" "in_range CHR ''0'' CHR ''9'' y4"
    and ok: "check_date (1000 * digit_value y1 + 100 * digit_value y2 + 10 * digit_value y3
                + digit_value y4) (10 * digit_value m1 + digit_value m2)
                (10 * digit_value d1 + digit_value d2)"
    and le: "\<not> date_gt \<lparr>year = 1000 * digit_value y1 + 100 * digit_value y2 + 10 * digit_value y3
                + digit_value y4, month = 10 * digit_value m1 + digit_value m2,
                day = 10 * digit_value d1 + digit_value d2\<rparr> today"
    by (auto simp: valid_birthday_text_def Let_def split: list.splits)
  define d where "d = 10 * digit_value d1 + digit_value d2"
  define m where "m = 10 * digit_value m1 + digit_value m2"
  define y where "y = 1000 * digit_value y1 + 100 * digit_value y2 + 10 * digit_value y3
                + digit_value y4"
  from ok have chk: "check_date y m d" by (simp add: d_def m_def y_def)
  then have bounds: "1 \<le> d" "d \<le> 31" "1 \<le> m" "m \<le> 12"
    using days_in_month_le[of y m] by (auto simp: check_date_def)
  have pd: "re_d_dash s = [(d, [m1, m2, CHR ''-'', y1, y2, y3, y4])]"
    unfolding s d_def using dg(1,2) bounds(1,2) by (intro re_d_dash_two) (simp_all add: d_def)
  have pm: "re_m_dash [m1, m2, CHR ''-'', y1, y2, y3, y4] = [(m, [y1, y2, y3, y4])]"
    unfolding m_def using dg(3,4) bounds(3,4) by (intro re_m_dash_two) (simp_all add: m_def)
  have py: "re_Y [y1, y2, y3, y4] = [(y, [])]"
    using dg(5-8) by (simp add: re_Y_def y_def)
  have "strptime_matches s = [((y, m, d), [])]"
    by (simp add: strptime_matches_def pd pm py)
  then have parse: "strptime s = Some \<lparr>year = y, month = m, day = d\<rparr>"
    using chk by (simp add: strptime_def)
  from le have "\<not> date_gt \<lparr>year = y, month = m, day = d\<rparr> today"
    by (simp add: d_def m_def y_def)
  with parse have b: "Birthday today s = Inr \<lparr>year = y, month = m, day = d\<rparr>"
    by (simp add: Birthday_def)
  from assms(2) have "y1 \<noteq> CHR ''0''" by (simp add: s)
  with digit_disj[OF dg(5)] have "1 \<le> digit_value y1"
    by (elim disjE) (simp_all add: digit_value_def code_point_def)
  then have y_lo: "1000 \<le> y" by (simp add: y_def)
  have y_hi: "y < 10000" using chk by (simp add: check_date_def)
  have "str_nat y = [y1, y2, y3, y4]"
    using str_nat_four[OF y_lo y_hi] pad4_digits[OF dg(5-8)] by (simp add: y_def)
  then have "Birthday_str \<lparr>year = y, month = m, day = d\<rparr> = s"
    unfolding Birthday_str_def strftime_def s
    using pad2_digits[OF dg(1,2)] pad2_digits[OF dg(3,4)]
    by (simp add: d_def m_def)
  with b show ?thesis by blast
qed

subsection \<open>Fields and handlers\<close>

lemma Phone_Inr_iff:
  "Phone v = Inr p \<longleftrightarrow> p = v \<and> length v = 12 \<and> startswith v ''380'' \<and> isnumeric v"
  by (auto simp: Phone_def)

lemma end_words_exit:
  "lower user_input \<in> {''.'', ''close'', ''bye'', ''exit''} \<Longrightarrow> main_iteration user_input = Exit_sequence"
  by (auto simp: main_iteration_def end_words_def)

lemma error_handler_Inr:
  "func args book = (Inr res, book') \<Longrightarrow> error_handler func args book = (Inr res, book')"
  by (simp add: error_handler_def)

lemma change_body_valid:
  assumes "3 \<le> length args" "Phone (args ! 1) = Inr old_ph" "Phone (args ! 2) = Inr new_ph"
  shows "change_body args book =
           (Inr (''You just changed number for contact '' @ [CHR 0x27] @ args ! 0 @ [CHR 0x27]
                 @ ''. New number is '' @ [CHR 0x27] @ args ! 2 @ [CHR 0x27]),
            change_record book (args ! 0) (args ! 1) (args ! 2))"
proof -
  from assms(2,3) have o: "old_ph = args ! 1" and n: "new_ph = args ! 2"
    and num: "isnumeric (args ! 2)"
    by (simp_all add: Phone_Inr_iff)
  have a: "arg args 0 = Inr (args ! 0)" "arg args 1 = Inr (args ! 1)" "arg args 2 = Inr (args ! 2)"
    using assms(1) by (auto simp: arg_def)
  show ?thesis
    using assms(2,3) num unfolding change_body_def a o n by (simp add: Let_def Name_def)
qed

text \<open>On a record with at least one phone, \<open>change\<close> looks at the first phone only. When
  it equals the old phone, it is taken out and the new phone is added at the end of the
  list; otherwise the record stays as it is and the message that the old phone was not
  found is returned, also when a later phone equals the old one.\<close>

lemma Record_change_nonempty:
  assumes "phones r \<noteq> []"
  shows "Record_change r old_phone new_phone =
           (if hd (phones r) = old_phone
            then (Some (''Phone '' @ old_phone @ '' was successfully changed to '' @ new_phone),
                  r\<lparr>phones := tl (phones r) @ [new_phone]\<rparr>)
            else (Some (''Phone number '' @ [CHR 0x27] @ old_phone @ [CHR 0x27]
                          @ '' was not found in the record''), r))"
  using assms by (cases "phones r") (simp_all add: Record_change_def)

subsection \<open>Days to the birthday\<close>

text \<open>Without a birthday the method reports that it is unknown. With a birthday that is
  not on 29 February, and a current year before 9999, it reports a positive number of
  days: the distance to this year's date when that is still ahead, and to next year's
  date otherwise.\<close>

lemma days_before_next_year:
  assumes "1 \<le> y"
  shows "days_before_year (y + 1) = days_before_year y + (if is_leap y then 366 else 365)"
proof -
  obtain p where y: "y = Suc p" using assms by (cases y) auto
  define a where "a = p div 4"
  define b where "b = p div 100"
  define c where "c = p div 400"
  have d4: "Suc p div 4 = (if Suc p mod 4 = 0 then Suc a else a)"
    and d100: "Suc p div 100 = (if Suc p mod 100 = 0 then Suc b else b)"
    and d400: "Suc p div 400 = (if Suc p mod 400 = 0 then Suc c else c)"
    by (simp_all add: div_Suc a_def b_def c_def)
  have m1: "Suc p mod 100 = 0 \<Longrightarrow> Suc p mod 4 = 0"
    using mod_mod_cancel[of 4 100 "Suc p"] by simp
  have m2: "Suc p mod 400 = 0 \<Longrightarrow> Suc p mod 100 = 0"
    using mod_mod_cancel[of 100 400 "Suc p"] by simp
  have le: "b \<le> a" unfolding a_def b_def by (rule div_le_mono2) simp_all
  have lhs: "days_before_year (y + 1) = Suc p * 365 + Suc p div 4 - Suc p div 100 + Suc p div 400"
    by (simp add: days_before_year_def y)
  have rhs: "days_before_year y = p * 365 + a - b + c"
    by (simp add: days_before_year_def y a_def b_def c_def)
  have leap: "is_leap y \<longleftrightarrow> Suc p mod 4 = 0 \<and> (Suc p mod 100 \<noteq> 0 \<or> Suc p mod 400 = 0)"
    by (simp add: is_leap_def y)
  consider (n4) "Suc p mod 4 \<noteq> 0"
    | (n100) "Suc p mod 4 = 0" "Suc p mod 100 \<noteq> 0"
    | (n400) "Suc p mod 4 = 0" "Suc p mod 100 = 0" "Suc p mod 400 \<noteq> 0"
    | (y400) "Suc p mod 4 = 0" "Suc p mod 100 = 0" "Suc p mod 400 = 0"
    by blast
  then show ?thesis
  proof cases
    case n4
    have a100: "Suc p mod 100 \<noteq> 0" using n4 m1 by (cases "Suc p mod 100 = 0") simp_all
    have "Suc p mod 400 \<noteq> 0" using a100 m2 by (cases "Suc p mod 400 = 0") simp_all
    with n4 a100 le show ?thesis unfolding lhs rhs d4 d100 d400 leap by simp
  next
    case n100
    have "Suc p mod 400 \<noteq> 0" using n100(2) m2 by (cases "Suc p mod 400 = 0") simp_all
    with n100 le show ?thesis unfolding lhs rhs d4 d100 d400 leap by simp
  next
    case n400
    with le show ?thesis unfolding lhs rhs d4 d100 d400 leap by simp
  next
    case y400
    with le show ?thesis unfolding lhs rhs d4 d100 d400 leap by simp
  qed
qed

lemma month_cases:
  assumes "1 \<le> m" "m \<le> (12::nat)"
  shows "m = 1 \<or> m = 2 \<or> m = 3 \<or> m = 4 \<or> m = 5 \<or> m = 6 \<or> m = 7 \<or> m = 8 \<or> m = 9
         \<or> m = 10 \<or> m = 11 \<or> m = 12"
  using assms by arith

lemma day_of_year_le:
  assumes "check_date y m d"
  shows "days_before_month y m + d \<le> (if is_leap y then 366 else 365)"
proof -
  from assms have m: "1 \<le> m" "m \<le> 12" and d: "d \<le> days_in_month y m"
    by (simp_all add: check_date_def)
  from month_cases[OF m] d show ?thesis
    by (elim disjE)
      (auto simp: days_before_month_def days_in_month_def upt_rec[of _ "numeral n" for n]
         upt_rec[of 1 1] split: if_splits)
qed


lemma toordinal_years:
  assumes t: "check_date (year today) (month today) (day today)"
    and n: "year nxt = year today + 1" "1 \<le> day nxt"
  shows "toordinal today < toordinal nxt"
proof -
  from t have y: "1 \<le> year today" by (simp add: check_date_def)
  have "days_before_year (year today) + days_before_month (year today) (month today) + day today
        \<le> days_before_year (year today + 1)"
    using day_of_year_le[OF t] days_before_next_year[OF y] by (simp split: if_splits)
  also have "\<dots> < days_before_year (year nxt) + days_before_month (year nxt) (month nxt) + day nxt"
    using n by simp
  finally show ?thesis by (simp add: toordinal_def)
qed

lemma replace_year_ok:
  assumes "check_date yb (month bd) (day bd)" "\<not> (month bd = 2 \<and> day bd = 29)"
    and "1 \<le> y" "y \<le> 9999"
  shows "replace_year bd y = Inr (bd\<lparr>year := y\<rparr>)"
  using assms by (auto simp: replace_year_def check_date_def days_in_month_def split: if_splits)

lemma days_to_birthday_unknown:
  "birthday r = None \<Longrightarrow>
   Record_days_to_birthday today r = Inr (name r @ [CHR 0x27] @ ''s birthday is unknown'')"
  by (simp add: Record_days_to_birthday_def)

lemma days_to_birthday_positive:
  assumes t: "check_date (year today) (month today) (day today)" and t9: "year today < 9999"
    and b: "birthday r = Some bd" "check_date (year bd) (month bd) (day bd)"
    and nl: "\<not> (month bd = 2 \<and> day bd = 29)"
  shows "\<exists>n. 0 < n \<and> Record_days_to_birthday today r = Inr (will_be_in (name r) n)"
proof -
  from t have y: "1 \<le> year today" "year today \<le> 9999" by (simp_all add: check_date_def)
  define this_year_bd where "this_year_bd = bd\<lparr>year := year today\<rparr>"
  define next_year_bd where "next_year_bd = this_year_bd\<lparr>year := year today + 1\<rparr>"
  have r1: "replace_year bd (year today) = Inr this_year_bd"
    unfolding this_year_bd_def using b(2) nl y by (rule replace_year_ok)
  have r2: "replace_year this_year_bd (year today + 1) = Inr next_year_bd"
    unfolding next_year_bd_def
    using b(2) nl t9 by (intro replace_year_ok[of "year bd"]) (simp_all add: this_year_bd_def)
  have d1: "1 \<le> day next_year_bd" using b(2) by (simp add: next_year_bd_def this_year_bd_def check_date_def)
  have pos: "0 < toordinal next_year_bd - toordinal today"
    using toordinal_years[OF t, of next_year_bd] d1 by (simp add: next_year_bd_def)
  show ?thesis
  proof (cases "toordinal this_year_bd - toordinal today > 0")
    case True
    then have "Record_days_to_birthday today r
               = Inr (will_be_in (name r) (toordinal this_year_bd - toordinal today))"
      by (simp add: Record_days_to_birthday_def b(1) r1 Let_def)
    with True show ?thesis by blast
  next
    case False
    then have "Record_days_to_birthday today r
               = Inr (will_be_in (name r) (toordinal next_year_bd - toordinal today))"
      using r2 by (simp add: Record_days_to_birthday_def b(1) r1 Let_def)
    with pos show ?thesis by blast
  qed
qed

text \<open>On the birthday itself the distance to this year's date is 0, which is not greater
  than 0, and the method reports the distance to next year's date.\<close>

lemma days_to_birthday_on_the_day:
  "Record_days_to_birthday \<lparr>year = 2023, month = 3, day = 1\<rparr>
     \<lparr>name = ''Ann'', phones = [], birthday = Some \<lparr>year = 2000, month = 3, day = 1\<rparr>,
      email = None\<rparr>
   = Inr (will_be_in ''Ann'' 366)"
  by (simp add: Record_days_to_birthday_def replace_year_def toordinal_def days_before_year_def
        days_before_month_def days_in_month_def is_leap_def Let_def
        upt_rec[of _ "numeral n" for n] upt_rec[of 1 1])

subsection \<open>What the handlers raise\<close>















text \<open>The decorator turns each of the four exceptions into a string.\<close>

lemma error_handler_converts:
  "func args s = (Inl IndexError, s') \<Longrightarrow>
     error_handler func args s
       = (Inr (''You didn'' @ [CHR 0x27] @ ''t provide contact name or phone number''), s')"
  "func args s = (Inl (ValueError (m # ms)), s') \<Longrightarrow> error_handler func args s = (Inr m, s')"
  "func args s = (Inl KeyError, s') \<Longrightarrow>
     error_handler func args s = (Inr ''User is not in contact list'', s')"
  "func args s = (Inl TypeError, s') \<Longrightarrow>
     error_handler func args s
       = (Inr (''You didn'' @ [CHR 0x27] @ ''t provide enough parameters''), s')"
  by (simp_all add: error_handler_def)













lemma add_phone_finish_handled:
  "isnumeric ph \<Longrightarrow> raises_handled (fst (add_phone_finish n ph rec book))"
  by (simp add: raises_handled_def add_phone_finish_def)







subsection \<open>States that the commands reach\<close>

text \<open>Adding a contact and deleting its phone leaves a record without phones in the book.\<close>

lemma empty_phone_list_is_reachable:
  "snd (call today Cmd_delete_phone [''Ann'', ''380501112233'']
          (snd (call today Cmd_add_phone [''Ann'', ''380501112233''] (([], []), []))))
   = (([], []), [(''Ann'', \<lparr>name = ''Ann'', phones = [], birthday = None, email = None\<rparr>)])"
  by (simp add: add_phone_def add_phone_body_def add_phone_finish_def error_handler_def arg_def
        Name_def Phone_def startswith_def isnumeric_def isnumeric_char_def code_point_def
        add_record_def Record_init_def on_book_def delete_phone_def delete_phone_body_def
        Record_remove_phone_def Let_def)

text \<open>A birthday of the year 999, added with \<open>add birthday\<close>, is shown by \<open>show\<close> with a
  year of three digits.\<close>

lemma short_year_is_shown:
  "fst (call \<lparr>year = 2026, month = 11, day = 3\<rparr> Cmd_phone [''Ann'']
          (snd (call \<lparr>year = 2026, month = 11, day = 3\<rparr> Cmd_add_birthday [''Ann'', ''01-01-0999'']
             (([], []), [(''Ann'', \<lparr>name = ''Ann'', phones = [], birthday = None, email = None\<rparr>)]))))
   = Inr ''Name: Ann; Birthday: 01-01-999; Phone: ; Email: None''"
  by code_simp

section \<open>The claims\<close>

text \<open>Claim C1. When a keyword is a prefix of the input, the dispatcher returns the
  handler of the first such keyword together with the arguments that are left after
  stripping exactly the leading keyword, trimming and splitting on single spaces.
  The program removes the keyword with \<open>replace\<close>, which deletes every occurrence: on
  \<open>search research\<close> it returns the argument \<open>re\<close>, where stripping the leading keyword
  gives \<open>research\<close>.\<close>

theorem C1_replace_removes_every_occurrence:
  "command_parser ''search research'' = ([], Some Cmd_search, Some [''re''])
   \<and> split (strip (drop (length ''search'') ''search research'')) CHR '' '' = [''research'']"
  by code_simp

text \<open>Claim C2. When no keyword is a prefix of the input, the dispatcher returns no handler
  and suggests the keyword with the highest ratio to the input, the earliest one among
  equals. No keyword is a prefix of \<open>zzz\<close> and none shares a character with it: every
  ratio is 0, the running maximum, which starts at 0 and is replaced only by a greater
  ratio, keeps the empty string, and the program prints \<open>Maybe you meant '' ?\<close>, a
  suggestion that is no keyword of the table.\<close>

theorem C2_no_suggestion_when_all_ratios_zero:
  "list_all (\<lambda>(c, k). \<not> startswith ''zzz'' k) COMMANDS
   \<and> command_parser ''zzz'' = ([maybe_you_meant []], None, None)
   \<and> [] \<notin> set (map snd COMMANDS)"
  by code_simp

text \<open>Claim C3. \<open>Phone(s)\<close> succeeds exactly when \<open>s\<close> has 12 characters, consists of digits
  and starts with \<open>380\<close>. The setter tests \<open>isnumeric\<close>, which also holds for characters
  that are not digits: a text of \<open>380\<close> and nine times the fraction U+00BD is accepted,
  against the setter's own message that a phone includes digits only.\<close>

theorem C3_Phone_accepts_non_digits:
  "Phone (''380'' @ replicate 9 (CHR 0xBD)) = Inr (''380'' @ replicate 9 (CHR 0xBD))
   \<and> \<not> isdigit (''380'' @ replicate 9 (CHR 0xBD))"
  by code_simp

text \<open>Claim C4. \<open>change\<close> inspects the first phone only, and in every case in which it does
  not replace a phone, the empty phone list included, it returns the message that the old
  phone was not found. On a record without phones the loop body never runs and the
  method ends without a \<open>return\<close>: the result is \<open>None\<close>, not the message.\<close>

theorem C4_empty_list_returns_None:
  "fst (Record_change \<lparr>name = ''Ann'', phones = [], birthday = None, email = None\<rparr>
          ''380501112233'' ''380501112244'') = None"
  by (simp add: Record_change_def)



text \<open>Claim C6. The result of a search holds the line of every matching record exactly
  once. The loop over the phones adds the line once for every phone that contains the
  text: a record with two such phones is listed twice.\<close>

theorem C6_search_repeats_record:
  "search_in_file
     [(''Ann'', \<lparr>name = ''Ann'', phones = [''380501112233'', ''380501112244''], birthday = None,
                 email = None\<rparr>)] ''3805''
   = ''Name: Ann Birthday: None Phone: 380501112233,380501112244'' @ [CHR 0x0A]
     @ ''Name: Ann Birthday: None Phone: 380501112233,380501112244'' @ [CHR 0x0A]"
  by code_simp

text \<open>Claim C7. For every valid text \<open>DD-MM-YYYY\<close> of a date not after today, \<open>Birthday\<close>
  succeeds and printing the birthday gives the text back. \<open>01-01-0999\<close> is such a text
  and is accepted, but the birthday is printed as \<open>01-01-999\<close>, a text that the setter
  itself refuses.\<close>

theorem C7_year_below_1000_loses_zeros:
  "valid_birthday_text \<lparr>year = 2026, month = 11, day = 3\<rparr> ''01-01-0999''
   \<and> Birthday \<lparr>year = 2026, month = 11, day = 3\<rparr> ''01-01-0999''
       = Inr \<lparr>year = 999, month = 1, day = 1\<rparr>
   \<and> Birthday_str \<lparr>year = 999, month = 1, day = 1\<rparr> = ''01-01-999''
   \<and> Birthday \<lparr>year = 2026, month = 11, day = 3\<rparr> ''01-01-999''
       = Inl (ValueError [''Birthday must be in a format '' @ [CHR 0x27] @ ''DD-MM-YYYY''
                          @ [CHR 0x27]])"
  by code_simp

text \<open>Claim C8. With a birthday set, \<open>days_to_birthday\<close> reports the number of days to its
  next occurrence. For a birthday on 29 February and a current year that is not a leap
  year, \<open>replace(year=...)\<close> raises \<open>ValueError\<close> and nothing is reported.\<close>

theorem C8_leap_day_birthday_raises:
  "Record_days_to_birthday \<lparr>year = 2023, month = 3, day = 1\<rparr>
     \<lparr>name = ''Ann'', phones = [], birthday = Some \<lparr>year = 2000, month = 2, day = 29\<rparr>,
      email = None\<rparr>
   = Inl (ValueError [''day is out of range for month''])"
  by code_simp

text \<open>Claim C9. Each of the words \<open>.\<close>, \<open>close\<close>, \<open>bye\<close>, \<open>good bye\<close> and \<open>exit\<close> starts the exit
  sequence. \<open>good bye\<close> is not in \<open>end_words\<close>, although the help text lists it: the line
  goes to the dispatcher, which answers with a suggestion.\<close>

theorem C9_good_bye_is_dispatched:
  "main_iteration ''good bye'' = Dispatch ([maybe_you_meant ''add birthday''], None, None)
   \<and> main_iteration ''bye'' = Exit_sequence"
  by code_simp

text \<open>Claim C10. Whenever the argument list has a name and two phones that \<open>Phone\<close>
  accepts, the handler \<open>change\<close> returns the message of success, whatever the book holds:
  also when the name is not in the book or the old phone is not the first phone of the
  contact.\<close>

theorem C10_change_always_reports_success:
  assumes "3 \<le> length args" "Phone (args ! 1) = Inr old_ph" "Phone (args ! 2) = Inr new_ph"
  shows "fst (change args book) =
           Inr (''You just changed number for contact '' @ [CHR 0x27] @ args ! 0 @ [CHR 0x27]
                @ ''. New number is '' @ [CHR 0x27] @ args ! 2 @ [CHR 0x27])"
proof -
  note body = change_body_valid[OF assms, of book]
  show ?thesis
    unfolding change_def by (simp add: error_handler_Inr[of change_body, OF body])
qed

text \<open>Claim C10, with a contact that is not in the book.\<close>

theorem C10_change_always_reports_success_witness:
  "3 \<le> length [''Bob'', ''380501112233'', ''380501112244'']
   \<and> Phone ([''Bob'', ''380501112233'', ''380501112244''] ! 1) = Inr ''380501112233''
   \<and> Phone ([''Bob'', ''380501112233'', ''380501112244''] ! 2) = Inr ''380501112244''
   \<and> fst (change [''Bob'', ''380501112233'', ''380501112244''] []) =
       Inr (''You just changed number for contact '' @ [CHR 0x27] @ ''Bob'' @ [CHR 0x27]
            @ ''. New number is '' @ [CHR 0x27] @ ''380501112244'' @ [CHR 0x27])"
proof -
  have h1: "3 \<le> length [''Bob'', ''380501112233'', ''380501112244'']" by simp
  have h2: "Phone ([''Bob'', ''380501112233'', ''380501112244''] ! 1) = Inr ''380501112233''"
    by code_simp
  have h3: "Phone ([''Bob'', ''380501112233'', ''380501112244''] ! 2) = Inr ''380501112244''"
    by code_simp
  from C10_change_always_reports_success[OF h1 h2 h3, of "[]"] h1 h2 h3 show ?thesis by simp
qed

end
